theory Spec2Isabelle
  imports Main
begin

section \<open>Python strings\<close>

text \<open>
  Python text is modelled as \<^typ>\<open>string\<close>: a character stands for the code point of the same
  number, so the texts of the model are those of code points 0 to 255, and text with a
  higher code point is outside it. The functions below are the string methods that
  \<^verbatim>\<open>server.py\<close> calls, on these characters: \<open>isspace\<close> holds of the twelve characters that
  \<^verbatim>\<open>str.strip()\<close> removes (tab to carriage return, the separators 0x1C to 0x1F, the space,
  U+0085 and U+00A0), \<open>isalnum\<close> of the characters of which \<^verbatim>\<open>str.isalnum()\<close> holds, and
  \<open>upper_char\<close> gives the capital of a letter (two characters for U+00DF). The capitals of
  U+00B5 and U+00FF have code points above 255; \<open>upper_char\<close> leaves these two letters as
  they are. The program compares the upper-cased query only with texts of ASCII letters,
  which neither letter nor its capital is.
\<close>

definition sq :: char where
  "sq = CHR 0x27"

definition dq :: char where
  "dq = CHR 0x22"

definition nl :: char where
  "nl = CHR 0x0A"

definition startswith :: "string \<Rightarrow> string \<Rightarrow> bool" where
  "startswith s p = (take (length p) s = p)"

definition endswith :: "string \<Rightarrow> string \<Rightarrow> bool" where
  "endswith s p = (length p \<le> length s \<and> drop (length s - length p) s = p)"

definition isspace :: "char \<Rightarrow> bool" where
  "isspace c = (let n = of_char c :: nat in
     (9 \<le> n \<and> n \<le> 13) \<or> (28 \<le> n \<and> n \<le> 32) \<or> n = 133 \<or> n = 160)"

definition py_strip :: "string \<Rightarrow> string" where
  "py_strip s = rev (dropWhile isspace (rev (dropWhile isspace s)))"

definition upper_char :: "char \<Rightarrow> string" where
  "upper_char c = (let n = of_char c :: nat in
     if (97 \<le> n \<and> n \<le> 122) \<or> (224 \<le> n \<and> n \<le> 254 \<and> n \<noteq> 247) then [char_of (n - 32)]
     else if n = 223 then ''SS''
     else [c])"

definition py_upper :: "string \<Rightarrow> string" where
  "py_upper s = concat (map upper_char s)"

definition isalnum :: "char \<Rightarrow> bool" where
  "isalnum c = (let n = of_char c :: nat in
     (48 \<le> n \<and> n \<le> 57) \<or> (65 \<le> n \<and> n \<le> 90) \<or> (97 \<le> n \<and> n \<le> 122) \<or>
     n = 170 \<or> n = 178 \<or> n = 179 \<or> n = 181 \<or> n = 185 \<or> n = 186 \<or>
     n = 188 \<or> n = 189 \<or> n = 190 \<or>
     (192 \<le> n \<and> n \<le> 255 \<and> n \<noteq> 215 \<and> n \<noteq> 247))"

text \<open>\<^verbatim>\<open>sep.join(xs)\<close>\<close>

fun py_join :: "string \<Rightarrow> string list \<Rightarrow> string" where
  "py_join sep [] = []"
| "py_join sep [x] = x"
| "py_join sep (x # y # ys) = x @ sep @ py_join sep (y # ys)"

text \<open>\<^verbatim>\<open>s.split(c)\<close> for a separator of one character: the result is never empty.\<close>

fun py_split :: "char \<Rightarrow> string \<Rightarrow> string list" where
  "py_split c [] = [[]]"
| "py_split c (x # xs) =
     (if x = c then [] # py_split c xs
      else (case py_split c xs of [] \<Rightarrow> [[x]] | p # ps \<Rightarrow> (x # p) # ps))"

text \<open>\<^verbatim>\<open>sub in s\<close>\<close>

fun py_in :: "string \<Rightarrow> string \<Rightarrow> bool" where
  "py_in sub [] = (sub = [])"
| "py_in sub (c # cs) = (startswith (c # cs) sub \<or> py_in sub cs)"

text \<open>\<^verbatim>\<open>str(n)\<close> for an integer.\<close>

definition digit_char :: "nat \<Rightarrow> char" where
  "digit_char d = char_of (48 + d)"

function str_nat :: "nat \<Rightarrow> string" where
  "str_nat n = (if n < 10 then [digit_char n] else str_nat (n div 10) @ [digit_char (n mod 10)])"
  by pat_completeness auto
termination
  by (relation "measure (\<lambda>n. n)") auto

definition str_int :: "int \<Rightarrow> string" where
  "str_int i = (if i < 0 then CHR ''-'' # str_nat (nat (- i)) else str_nat (nat i))"

section \<open>Configuration resolution: \<^verbatim>\<open>get_db_config\<close>\<close>

text \<open>
  The process environment is a map from variable names to values; \<open>getenv\<close> is
  \<^verbatim>\<open>os.getenv(name, default)\<close>, whose default may be \<^verbatim>\<open>None\<close>.
\<close>

type_synonym environ = "string \<rightharpoonup> string"

definition getenv :: "environ \<Rightarrow> string \<Rightarrow> string option \<Rightarrow> string option" where
  "getenv env name dflt = (case env name of Some v \<Rightarrow> Some v | None \<Rightarrow> dflt)"

text \<open>
  The nested helper of \<^verbatim>\<open>get_db_config\<close>. \<^verbatim>\<open>value[1:-1]\<close> is \<open>butlast (tl v)\<close>, also on a
  value of one character, where both give the empty string.
\<close>

definition clean_env_var :: "environ \<Rightarrow> string \<Rightarrow> string option \<Rightarrow> string option" where
  "clean_env_var env env_var dflt =
     (case getenv env env_var dflt of
        None \<Rightarrow> None
      | Some v \<Rightarrow>
          if v \<noteq> [] \<and>
             ((startswith v [sq] \<and> endswith v [sq]) \<or> (startswith v [dq] \<and> endswith v [dq]))
          then Some (butlast (tl v))
          else Some v)"

text \<open>What an f-string prints for a value that is a string or \<^verbatim>\<open>None\<close>.\<close>

definition fmt :: "string option \<Rightarrow> string" where
  "fmt v = (case v of None \<Rightarrow> ''None'' | Some s \<Rightarrow> s)"

text \<open>Python truthiness of a string or \<^verbatim>\<open>None\<close>.\<close>

definition truthy :: "string option \<Rightarrow> bool" where
  "truthy v = (case v of None \<Rightarrow> False | Some s \<Rightarrow> s \<noteq> [])"

datatype level = INFO | WARNING | ERROR

type_synonym log = "(level \<times> string) list"

text \<open>
  The exceptions of the program: \<open>Error\<close> is \<^verbatim>\<open>pyodbc.Error\<close> with its subclasses, the next
  four are the built-in exceptions that the program raises or that its own expressions can
  raise, \<open>OtherException\<close> is any other subclass of \<^verbatim>\<open>Exception\<close> that a call into the
  driver or into the constructor of \<^verbatim>\<open>Resource\<close> may raise. Each carries the text that
  \<^verbatim>\<open>str(e)\<close> gives.
\<close>

datatype exn =
    Error string
  | ValueError string
  | RuntimeError string
  | TypeError string
  | IndexError string
  | OtherException string

fun exn_str :: "exn \<Rightarrow> string" where
  "exn_str (Error m) = m"
| "exn_str (ValueError m) = m"
| "exn_str (RuntimeError m) = m"
| "exn_str (TypeError m) = m"
| "exn_str (IndexError m) = m"
| "exn_str (OtherException m) = m"

text \<open>The dictionary that \<^verbatim>\<open>get_db_config\<close> returns beside the connection string.\<close>

record config =
  cfg_driver :: "string option"
  cfg_server :: string
  cfg_user :: string
  cfg_database :: string
  cfg_password :: string

text \<open>The message of the password branch (source lines 37 to 43).\<close>

definition password_log :: "string option \<Rightarrow> level \<times> string" where
  "password_log password =
     (case password of
        Some p \<Rightarrow>
          if p \<noteq> [] \<and> length p > 4 then
            (let special_chars = filter (\<lambda>c. \<not> isalnum c) p in
             (INFO, ''Debug - Password format: begins with '' @ [sq] @ take 2 p @ [sq]
                    @ '', ends with '' @ [sq] @ drop (length p - 2) p @ [sq]
                    @ '', contains special chars: '' @ [sq] @ special_chars @ [sq]))
          else (WARNING, ''Password is too short or not provided!'')
      | None \<Rightarrow> (WARNING, ''Password is too short or not provided!''))"

definition connection_params ::
  "environ \<Rightarrow> string option \<Rightarrow> string option \<Rightarrow> string option \<Rightarrow> string option \<Rightarrow>
   string option \<Rightarrow> string option \<Rightarrow> string list" where
  "connection_params env driver server port user password database =
     [''Driver={'' @ fmt driver @ ''}'',
      ''Server='' @ fmt server @ '','' @ fmt port,
      ''Database='' @ fmt database,
      ''UID='' @ fmt user,
      ''PWD='' @ fmt password,
      ''TrustServerCertificate='' @ fmt (getenv env ''TrustServerCertificate'' (Some ''yes'')),
      ''Encrypt='' @ fmt (getenv env ''Encrypt'' (Some ''yes'')),
      ''Connection Timeout='' @ fmt (getenv env ''ConnectionTimeout'' (Some ''60'')),
      ''Login Timeout='' @ fmt (getenv env ''LoginTimeout'' (Some ''60'')),
      ''MARS_Connection=yes'']"

text \<open>
  \<^verbatim>\<open>get_db_config\<close> returns what it logged, in order, and either the exception it raised or
  the pair of the redacted dictionary and the connection string.
\<close>

definition get_db_config :: "environ \<Rightarrow> log \<times> (exn + config \<times> string)" where
  "get_db_config env =
     (let driver = clean_env_var env ''MSSQL_DRIVER'' (Some ''ODBC Driver 18 for SQL Server'');
          server = clean_env_var env ''MSSQL_HOST'' (Some ''localhost'');
          port = clean_env_var env ''MSSQL_PORT'' (Some ''1433'');
          user = clean_env_var env ''MSSQL_USER'' None;
          password = clean_env_var env ''MSSQL_PASSWORD'' None;
          database = clean_env_var env ''MSSQL_DATABASE'' None;
          log1 = [(INFO, ''Reading database configuration from environment variables...''),
                  password_log password,
                  (INFO, ''Using driver: '' @ fmt driver),
                  (INFO, ''Connecting to server: '' @ fmt server @ '':'' @ fmt port),
                  (INFO, ''Database: '' @ fmt database @ '', User: '' @ fmt user)]
      in if \<not> (truthy user \<and> truthy password \<and> truthy database) then
           (log1 @ [(ERROR, ''Missing required database configuration. Please check environment variables:''),
                    (ERROR, ''MSSQL_USER, MSSQL_PASSWORD, and MSSQL_DATABASE are required'')],
            Inl (ValueError ''Missing required database configuration''))
         else
           (let connection_string =
                  py_join '';'' (connection_params env driver server port user password database)
            in (log1 @ [(INFO, ''Connection string format: Driver={...};Server=...;Database=...;UID=...;PWD=***;...'')],
                Inr (\<lparr>cfg_driver = driver,
                       cfg_server = fmt server @ '':'' @ fmt port,
                       cfg_user = fmt user,
                       cfg_database = fmt database,
                       cfg_password = ''********''\<rparr>,
                     connection_string))))"

section \<open>The database driver\<close>

text \<open>
  \<^verbatim>\<open>pyodbc\<close> is not part of the program. The handlers are modelled against any driver: a
  record of functions that say, from the calls made so far, how the next call answers. The
  calls made so far are the trace, a list of events in the order the program issues them;
  \<open>Returned c\<close> is a call that came back, \<open>Raised c e\<close> one that raised \<open>e\<close>. \<open>Commit\<close> is the
  program's own \<^verbatim>\<open>conn.commit()\<close> and \<open>Close\<close> a call of \<^verbatim>\<open>conn.close()\<close>, which no handler
  makes. \<open>CursorExit\<close> and \<open>ConnExit\<close> are the exits of the two \<^verbatim>\<open>with\<close> blocks, that is the
  calls of \<^verbatim>\<open>__exit__\<close>, with the exception that is leaving the block, if any. Entering a
  block is counted with the call that makes its object.
\<close>

datatype call =
    Connect string
  | Cursor
  | Execute string
  | Fetchall
  | Commit
  | Close
  | CursorExit "exn option"
  | ConnExit "exn option"

datatype event = Returned call | Raised call exn

text \<open>
  A cell of a result row. The program only ever applies \<^verbatim>\<open>str\<close> to a cell (and joins the
  first cell of a catalog row as a string), so a value that is neither \<^verbatim>\<open>None\<close>, an
  integer nor a string is given by the name of its type and its \<^verbatim>\<open>str\<close>.
\<close>

datatype cell = CNone | CInt int | CStr string | COther string string

fun py_str :: "cell \<Rightarrow> string" where
  "py_str CNone = ''None''"
| "py_str (CInt i) = str_int i"
| "py_str (CStr s) = s"
| "py_str (COther ty s) = s"

fun type_name :: "cell \<Rightarrow> string" where
  "type_name CNone = ''NoneType''"
| "type_name (CInt i) = ''int''"
| "type_name (CStr s) = ''str''"
| "type_name (COther ty s) = ty"

text \<open>
  \<open>drv_description\<close> gives the column names of \<^verbatim>\<open>cursor.description\<close> (the first component
  of each entry), or \<open>None\<close> when the last statement produced no result set. The two exit
  functions receive the exception that is leaving the block, if any, and may raise one
  themselves; they do not swallow the exception that is leaving. The last field is not the
  driver's: it is the check that the constructor of \<^verbatim>\<open>Resource\<close> (of \<^verbatim>\<open>mcp.types\<close>, not
  part of the program either) makes of the address it is given, with the exception it
  raises for an address it refuses.
\<close>

record driver =
  drv_connect :: "event list \<Rightarrow> string \<Rightarrow> exn option"
  drv_cursor :: "event list \<Rightarrow> exn option"
  drv_execute :: "event list \<Rightarrow> string \<Rightarrow> exn option"
  drv_description :: "event list \<Rightarrow> string list option"
  drv_fetchall :: "event list \<Rightarrow> exn + cell list list"
  drv_rowcount :: "event list \<Rightarrow> int"
  drv_commit :: "event list \<Rightarrow> exn option"
  drv_cursor_exit :: "event list \<Rightarrow> exn option \<Rightarrow> exn option"
  drv_conn_exit :: "event list \<Rightarrow> exn option \<Rightarrow> exn option"
  resource_check :: "string \<Rightarrow> exn option"

text \<open>A computation takes the trace and returns a value or an exception, and the new trace.\<close>

type_synonym 'a io = "event list \<Rightarrow> (exn + 'a) \<times> event list"

definition ret :: "'a \<Rightarrow> 'a io" where
  "ret x tr = (Inr x, tr)"

definition raise :: "exn \<Rightarrow> 'a io" where
  "raise e tr = (Inl e, tr)"

definition lift :: "exn + 'a \<Rightarrow> 'a io" where
  "lift r tr = (r, tr)"

definition io_bind :: "'a io \<Rightarrow> ('a \<Rightarrow> 'b io) \<Rightarrow> 'b io" where
  "io_bind m f tr = (case m tr of (Inl e, tr') \<Rightarrow> (Inl e, tr') | (Inr x, tr') \<Rightarrow> f x tr')"

definition call_drv :: "call \<Rightarrow> (event list \<Rightarrow> exn option) \<Rightarrow> unit io" where
  "call_drv c answer tr =
     (case answer tr of
        Some e \<Rightarrow> (Inl e, tr @ [Raised c e])
      | None \<Rightarrow> (Inr (), tr @ [Returned c]))"

definition do_connect :: "driver \<Rightarrow> string \<Rightarrow> unit io" where
  "do_connect drv connection_string =
     call_drv (Connect connection_string) (\<lambda>tr. drv_connect drv tr connection_string)"

definition do_cursor :: "driver \<Rightarrow> unit io" where
  "do_cursor drv = call_drv Cursor (drv_cursor drv)"

definition do_execute :: "driver \<Rightarrow> string \<Rightarrow> unit io" where
  "do_execute drv query = call_drv (Execute query) (\<lambda>tr. drv_execute drv tr query)"

definition do_commit :: "driver \<Rightarrow> unit io" where
  "do_commit drv = call_drv Commit (drv_commit drv)"

definition do_fetchall :: "driver \<Rightarrow> cell list list io" where
  "do_fetchall drv tr =
     (case drv_fetchall drv tr of
        Inl e \<Rightarrow> (Inl e, tr @ [Raised Fetchall e])
      | Inr rows \<Rightarrow> (Inr rows, tr @ [Returned Fetchall]))"

text \<open>\<^verbatim>\<open>[desc[0] for desc in cursor.description]\<close>: iterating \<^verbatim>\<open>None\<close> raises.\<close>

definition get_columns :: "driver \<Rightarrow> string list io" where
  "get_columns drv tr =
     (case drv_description drv tr of
        None \<Rightarrow> (Inl (TypeError (sq # ''NoneType'' @ sq # '' object is not iterable'')), tr)
      | Some columns \<Rightarrow> (Inr columns, tr))"

definition get_rowcount :: "driver \<Rightarrow> int io" where
  "get_rowcount drv tr = (Inr (drv_rowcount drv tr), tr)"

text \<open>
  The body of a \<^verbatim>\<open>with\<close> block, followed by the exit of its context manager on every way
  out of the body: \<open>leaving r\<close> is the exception that the exit is called with. An exception
  raised by the exit replaces the body's result.
\<close>

definition leaving :: "exn + 'a \<Rightarrow> exn option" where
  "leaving r = (case r of Inl e \<Rightarrow> Some e | Inr x \<Rightarrow> None)"

definition with_block ::
  "(exn option \<Rightarrow> call) \<Rightarrow> (event list \<Rightarrow> exn option \<Rightarrow> exn option) \<Rightarrow> 'a io \<Rightarrow> 'a io" where
  "with_block c exit_fn body tr =
     (case body tr of
        (r, tr') \<Rightarrow>
          (case exit_fn tr' (leaving r) of
             Some e' \<Rightarrow> (Inl e', tr' @ [Raised (c (leaving r)) e'])
           | None \<Rightarrow> (r, tr' @ [Returned (c (leaving r))])))"

text \<open>\<^verbatim>\<open>with connect(connection_string) as conn:\<close>\<close>

definition with_connect :: "driver \<Rightarrow> string \<Rightarrow> 'a io \<Rightarrow> 'a io" where
  "with_connect drv connection_string body =
     io_bind (do_connect drv connection_string)
       (\<lambda>u. with_block ConnExit (drv_conn_exit drv) body)"

text \<open>\<^verbatim>\<open>with conn.cursor() as cursor:\<close>\<close>

definition with_cursor :: "driver \<Rightarrow> 'a io \<Rightarrow> 'a io" where
  "with_cursor drv body =
     io_bind (do_cursor drv) (\<lambda>u. with_block CursorExit (drv_cursor_exit drv) body)"

text \<open>
  \<^verbatim>\<open>try: ... except ...\<close>: the handler answers \<open>None\<close> for an exception its clause does not
  catch.
\<close>

definition try_except :: "'a io \<Rightarrow> (exn \<Rightarrow> 'a io option) \<Rightarrow> 'a io" where
  "try_except m handler tr =
     (case m tr of
        (Inl e, tr') \<Rightarrow> (case handler e of Some h \<Rightarrow> h tr' | None \<Rightarrow> (Inl e, tr'))
      | (Inr x, tr') \<Rightarrow> (Inr x, tr'))"

section \<open>The handlers\<close>

text \<open>
  The handlers' calls of \<^verbatim>\<open>logger\<close> write to the log and do nothing else; they are left out.
  Building a \<^verbatim>\<open>TextContent\<close> from two strings is taken as building the record; building a
  \<^verbatim>\<open>Resource\<close> is, once its address has passed the check of the constructor.
\<close>

definition catalog_query :: string where
  "catalog_query = ''SELECT TABLE_NAME FROM INFORMATION_SCHEMA.TABLES WHERE TABLE_TYPE = 'BASE TABLE';''"

record resource =
  res_uri :: string
  res_name :: string
  res_mimeType :: string
  res_description :: string

datatype text_content = TextContent (tc_type: string) (tc_text: string)

text \<open>\<^verbatim>\<open>table[0]\<close> on a row.\<close>

fun first_cell :: "cell list \<Rightarrow> exn + cell" where
  "first_cell [] = Inl (IndexError ''tuple index out of range'')"
| "first_cell (c # cs) = Inr c"

text \<open>
  The loop of \<^verbatim>\<open>list_resources\<close> (source lines 108 to 117): it stops at the first row
  without a cell and at the first address that the constructor of \<^verbatim>\<open>Resource\<close> refuses.
\<close>

fun make_resources :: "(string \<Rightarrow> exn option) \<Rightarrow> cell list list \<Rightarrow> exn + resource list" where
  "make_resources check [] = Inr []"
| "make_resources check (table # tables) =
     (case first_cell table of
        Inl e \<Rightarrow> Inl e
      | Inr c \<Rightarrow>
          (case check (''mssql://'' @ py_str c @ ''/data'') of
             Some e \<Rightarrow> Inl e
           | None \<Rightarrow>
               (case make_resources check tables of
                  Inl e \<Rightarrow> Inl e
                | Inr resources \<Rightarrow>
                    Inr (\<lparr>res_uri = ''mssql://'' @ py_str c @ ''/data'',
                          res_name = ''Table: '' @ py_str c,
                          res_mimeType = ''text/plain'',
                          res_description = ''Data in table: '' @ py_str c\<rparr> # resources))))"

text \<open>The \<^verbatim>\<open>try\<close> block of \<^verbatim>\<open>list_resources\<close> (source lines 99 to 118).\<close>

definition list_tables :: "driver \<Rightarrow> string \<Rightarrow> resource list io" where
  "list_tables drv connection_string =
     with_connect drv connection_string
       (with_cursor drv
          (io_bind (do_execute drv catalog_query) (\<lambda>u.
           io_bind (do_fetchall drv) (\<lambda>tables.
           lift (make_resources (resource_check drv) tables)))))"

definition list_resources :: "driver \<Rightarrow> environ \<Rightarrow> (exn + resource list) \<times> event list" where
  "list_resources drv env =
     (case snd (get_db_config env) of
        Inl e \<Rightarrow> (Inl e, [])
      | Inr (config, connection_string) \<Rightarrow>
          try_except (list_tables drv connection_string)
            (\<lambda>e. case e of Error m \<Rightarrow> Some (ret []) | _ \<Rightarrow> None)
            [])"

text \<open>The serialisation shared by \<^verbatim>\<open>read_resource\<close> and the SELECT branch of \<^verbatim>\<open>call_tool\<close>.\<close>

definition row_line :: "cell list \<Rightarrow> string" where
  "row_line row = py_join '','' (map py_str row)"

definition table_text :: "string list \<Rightarrow> cell list list \<Rightarrow> string" where
  "table_text columns rows = py_join [nl] (py_join '','' columns # map row_line rows)"

text \<open>The \<^verbatim>\<open>try\<close> block of \<^verbatim>\<open>read_resource\<close> (source lines 145 to 152).\<close>

definition read_table :: "driver \<Rightarrow> string \<Rightarrow> string \<Rightarrow> string io" where
  "read_table drv connection_string table =
     with_connect drv connection_string
       (with_cursor drv
          (io_bind (do_execute drv (''SELECT TOP 100 * FROM '' @ table)) (\<lambda>u.
           io_bind (get_columns drv) (\<lambda>columns.
           io_bind (do_fetchall drv) (\<lambda>rows.
           ret (table_text columns rows))))))"

definition read_resource :: "driver \<Rightarrow> environ \<Rightarrow> string \<Rightarrow> (exn + string) \<times> event list" where
  "read_resource drv env uri_str =
     (case snd (get_db_config env) of
        Inl e \<Rightarrow> (Inl e, [])
      | Inr (config, connection_string) \<Rightarrow>
          if \<not> startswith uri_str ''mssql://'' then
            (Inl (ValueError (''Invalid URI scheme: '' @ uri_str)), [])
          else
            (case py_split CHR ''/'' (drop 8 uri_str) of
               [] \<Rightarrow> (Inl (IndexError ''list index out of range''), [])
             | table # rest \<Rightarrow>
                 try_except (read_table drv connection_string table)
                   (\<lambda>e. case e of
                           Error m \<Rightarrow> Some (raise (RuntimeError (''Database error: '' @ m)))
                         | _ \<Rightarrow> None)
                   []))"

text \<open>
  \<^verbatim>\<open>[table[0] for table in tables]\<close>, and the check that \<^verbatim>\<open>"\n".join\<close> makes of its items:
  the item at index \<open>i\<close> must be a string.
\<close>

fun first_cells :: "cell list list \<Rightarrow> exn + cell list" where
  "first_cells [] = Inr []"
| "first_cells (table # tables) =
     (case first_cell table of
        Inl e \<Rightarrow> Inl e
      | Inr c \<Rightarrow> (case first_cells tables of Inl e \<Rightarrow> Inl e | Inr cs \<Rightarrow> Inr (c # cs)))"

fun str_items :: "nat \<Rightarrow> cell list \<Rightarrow> exn + string list" where
  "str_items i [] = Inr []"
| "str_items i (CStr s # cs) =
     (case str_items (Suc i) cs of Inl e \<Rightarrow> Inl e | Inr ss \<Rightarrow> Inr (s # ss))"
| "str_items i (c # cs) =
     Inl (TypeError (''sequence item '' @ str_nat i @ '': expected str instance, ''
                     @ type_name c @ '' found''))"

definition show_tables_text :: "config \<Rightarrow> cell list list \<Rightarrow> exn + string" where
  "show_tables_text config tables =
     (case first_cells tables of
        Inl e \<Rightarrow> Inl e
      | Inr cs \<Rightarrow>
          (case str_items 1 cs of
             Inl e \<Rightarrow> Inl e
           | Inr names \<Rightarrow> Inr (py_join [nl] ((''Tables_in_'' @ cfg_database config) # names))))"

text \<open>The \<^verbatim>\<open>try\<close> block of \<^verbatim>\<open>call_tool\<close> (source lines 193 to 215).\<close>

definition run_query :: "driver \<Rightarrow> config \<Rightarrow> string \<Rightarrow> string \<Rightarrow> text_content list io" where
  "run_query drv config connection_string query =
     with_connect drv connection_string
       (with_cursor drv
          (io_bind (do_execute drv query) (\<lambda>u.
             if py_upper (py_strip query) = ''SHOW TABLES'' then
               io_bind (do_execute drv catalog_query) (\<lambda>u.
               io_bind (do_fetchall drv) (\<lambda>tables.
               io_bind (lift (show_tables_text config tables)) (\<lambda>t.
               ret [TextContent ''text'' t])))
             else if startswith (py_upper (py_strip query)) ''SELECT'' then
               io_bind (get_columns drv) (\<lambda>columns.
               io_bind (do_fetchall drv) (\<lambda>rows.
               ret [TextContent ''text'' (table_text columns rows)]))
             else
               io_bind (do_commit drv) (\<lambda>u.
               io_bind (get_rowcount drv) (\<lambda>n.
               ret [TextContent ''text''
                      (''Query executed successfully. Rows affected: '' @ str_int n)])))))"

text \<open>The arguments of a tool call: a dictionary from keys to strings.\<close>

definition call_tool ::
  "driver \<Rightarrow> environ \<Rightarrow> string \<Rightarrow> (string \<rightharpoonup> string) \<Rightarrow> (exn + text_content list) \<times> event list" where
  "call_tool drv env name arguments =
     (case snd (get_db_config env) of
        Inl e \<Rightarrow> (Inl e, [])
      | Inr (config, connection_string) \<Rightarrow>
          if name \<noteq> ''execute_sql'' then (Inl (ValueError (''Unknown tool: '' @ name)), [])
          else
            (case arguments ''query'' of
               None \<Rightarrow> (Inl (ValueError ''Query is required''), [])
             | Some query \<Rightarrow>
                 if query = [] then (Inl (ValueError ''Query is required''), [])
                 else
                   try_except (run_query drv config connection_string query)
                     (\<lambda>e. Some (ret [TextContent ''text''
                                       (''Error executing query: '' @ exn_str e)]))
                     []))"

section \<open>Observations on traces and texts\<close>

fun is_returned :: "event \<Rightarrow> bool" where
  "is_returned (Returned c) = True"
| "is_returned (Raised c e) = False"

text \<open>No call into the driver raised.\<close>

definition no_raise :: "event list \<Rightarrow> bool" where
  "no_raise tr = list_all is_returned tr"

fun is_conn_open :: "event \<Rightarrow> bool" where
  "is_conn_open (Returned (Connect cs)) = True"
| "is_conn_open e = False"

fun is_conn_exit :: "event \<Rightarrow> bool" where
  "is_conn_exit (Returned (ConnExit p)) = True"
| "is_conn_exit (Raised (ConnExit p) e) = True"
| "is_conn_exit e = False"

text \<open>A call of \<^verbatim>\<open>conn.commit()\<close> by the program, whether it came back or raised.\<close>

fun is_commit :: "event \<Rightarrow> bool" where
  "is_commit (Returned Commit) = True"
| "is_commit (Raised Commit e) = True"
| "is_commit e = False"

text \<open>
  What the driver does with these calls is taken from the documentation of \<^verbatim>\<open>pyodbc\<close>, for
  a connection opened without \<^verbatim>\<open>autocommit\<close>, as \<^verbatim>\<open>connect(connection_string)\<close> opens it:
  \<^verbatim>\<open>commit()\<close> commits the transaction; leaving the block of the cursor or of the connection
  with no exception commits it as well, and leaving the block of the connection with one
  rolls it back; no exit closes the connection, only \<^verbatim>\<open>close()\<close> does. \<open>commits\<close> holds of the
  events that commit the transaction, \<open>closes\<close> of those that close the connection.
\<close>

fun commits :: "event \<Rightarrow> bool" where
  "commits (Returned Commit) = True"
| "commits (Returned (CursorExit None)) = True"
| "commits (Returned (ConnExit None)) = True"
| "commits e = False"

fun closes :: "event \<Rightarrow> bool" where
  "closes (Returned Close) = True"
| "closes e = False"

definition conn_opened :: "event list \<Rightarrow> nat" where
  "conn_opened tr = length (filter is_conn_open tr)"

definition conn_exited :: "event list \<Rightarrow> nat" where
  "conn_exited tr = length (filter is_conn_exit tr)"

text \<open>
  At most one connection is opened; as many connection blocks are left as connections
  were opened; and where one was opened, leaving its block is the last event of the trace.
\<close>

definition released_once :: "event list \<Rightarrow> bool" where
  "released_once tr =
     (conn_opened tr \<le> 1 \<and> conn_exited tr = conn_opened tr \<and>
      (conn_opened tr = 0 \<or> is_conn_exit (last tr)))"

text \<open>A computation that only appends events, all of them satisfying \<open>P\<close>.\<close>

definition adds_only :: "(event \<Rightarrow> bool) \<Rightarrow> 'a io \<Rightarrow> bool" where
  "adds_only P m = (\<forall>tr. \<exists>ext. snd (m tr) = tr @ ext \<and> list_all P ext)"

text \<open>An event that neither opens a connection nor leaves a connection block.\<close>

definition inside_conn :: "event \<Rightarrow> bool" where
  "inside_conn e = (\<not> is_conn_open e \<and> \<not> is_conn_exit e)"

text \<open>An event that is no call of \<^verbatim>\<open>commit\<close>.\<close>

definition not_commit :: "event \<Rightarrow> bool" where
  "not_commit e = (\<not> is_commit e)"

text \<open>An event that does not close the connection.\<close>

definition not_close :: "event \<Rightarrow> bool" where
  "not_close e = (\<not> closes e)"

text \<open>The lines of a text, and the comma-separated fields of a line.\<close>

definition lines :: "string \<Rightarrow> string list" where
  "lines s = py_split nl s"

definition fields :: "string \<Rightarrow> string list" where
  "fields s = py_split CHR '','' s"

text \<open>How often a character occurs in a text.\<close>

definition count_char :: "char \<Rightarrow> string \<Rightarrow> nat" where
  "count_char c s = length (filter (\<lambda>x. x = c) s)"

text \<open>The trace up to and including the first \<^verbatim>\<open>cursor.execute\<close>, when nothing raised.\<close>

definition executed :: "string \<Rightarrow> string \<Rightarrow> event list" where
  "executed connection_string query =
     [Returned (Connect connection_string), Returned Cursor, Returned (Execute query)]"

section \<open>A sample environment and sample drivers\<close>

definition shop_env :: environ where
  "shop_env = [''MSSQL_USER'' \<mapsto> ''sa'', ''MSSQL_PASSWORD'' \<mapsto> ''secret1'',
               ''MSSQL_DATABASE'' \<mapsto> ''shop'']"

definition shop_config :: config where
  "shop_config = \<lparr>cfg_driver = Some ''ODBC Driver 18 for SQL Server'',
                  cfg_server = ''localhost:1433'', cfg_user = ''sa'',
                  cfg_database = ''shop'', cfg_password = ''********''\<rparr>"

definition shop_cs :: string where
  "shop_cs = ''Driver={ODBC Driver 18 for SQL Server};Server=localhost,1433;Database=shop;UID=sa;PWD=secret1;TrustServerCertificate=yes;Encrypt=yes;Connection Timeout=60;Login Timeout=60;MARS_Connection=yes''"

text \<open>The last statement that \<^verbatim>\<open>cursor.execute\<close> accepted.\<close>

fun last_executed :: "event list \<Rightarrow> string option" where
  "last_executed [] = None"
| "last_executed (e # es) =
     (case last_executed es of
        Some q \<Rightarrow> Some q
      | None \<Rightarrow> (case e of Returned (Execute q) \<Rightarrow> Some q | _ \<Rightarrow> None))"

definition update_one :: string where
  "update_one = ''UPDATE Customers SET Name='X' WHERE Id=1''"

definition delete_none :: string where
  "delete_none = ''DELETE FROM Customers WHERE Id=99''"

definition note_body :: string where
  "note_body = ''a'' @ [nl] @ ''b''"

text \<open>
  A database with the tables \<open>Customers\<close> (columns \<open>Id\<close>, \<open>Name\<close>, \<open>Town\<close>, two rows) and \<open>Notes\<close>
  (column \<open>Body\<close>, a hundred rows of a two-line text). It executes the statements it
  knows and rejects every other one, \<^verbatim>\<open>SHOW TABLES\<close> among them, as a server does that
  has no such statement. An address with a space does not pass the check of \<^verbatim>\<open>Resource\<close>.
\<close>

definition shop_driver :: driver where
  "shop_driver =
     \<lparr>drv_connect = (\<lambda>tr cs. None),
      drv_cursor = (\<lambda>tr. None),
      drv_execute = (\<lambda>tr q.
         if q = catalog_query \<or> q = ''SELECT TOP 100 * FROM Customers''
            \<or> q = ''SELECT TOP 100 * FROM Notes'' \<or> q = ''select Id, Name from Customers''
            \<or> q = ''select Name, Town from Customers''
            \<or> q = update_one \<or> q = delete_none
         then None
         else Some (Error ''Statement could not be prepared'')),
      drv_description = (\<lambda>tr.
         if last_executed tr = Some catalog_query then Some [''TABLE_NAME'']
         else if last_executed tr = Some ''SELECT TOP 100 * FROM Customers''
                 \<or> last_executed tr = Some ''select Id, Name from Customers''
              then Some [''Id'', ''Name'']
         else if last_executed tr = Some ''select Name, Town from Customers''
              then Some [''Name'', ''Town'']
         else if last_executed tr = Some ''SELECT TOP 100 * FROM Notes'' then Some [''Body'']
         else None),
      drv_fetchall = (\<lambda>tr.
         if last_executed tr = Some catalog_query then Inr [[CStr ''Customers''], [CStr ''Notes'']]
         else if last_executed tr = Some ''SELECT TOP 100 * FROM Customers''
                 \<or> last_executed tr = Some ''select Id, Name from Customers''
              then Inr [[CInt 1, CStr ''Ann''], [CInt 2, CStr ''Bo'']]
         else if last_executed tr = Some ''select Name, Town from Customers''
              then Inr [[CStr ''Ann'', CStr ''Bath''], [CStr ''Bo'', CStr ''Ayr, Scotland'']]
         else if last_executed tr = Some ''SELECT TOP 100 * FROM Notes''
              then Inr (replicate 100 [CStr note_body])
         else Inl (Error ''No results.  Previous SQL was not a query.'')),
      drv_rowcount = (\<lambda>tr. if last_executed tr = Some update_one then 1
                           else if last_executed tr = Some delete_none then 0 else - 1),
      drv_commit = (\<lambda>tr. None),
      drv_cursor_exit = (\<lambda>tr e. None),
      drv_conn_exit = (\<lambda>tr e. None),
      resource_check = (\<lambda>uri. if CHR '' '' \<in> set uri
                               then Some (ValueError ''Input should be a valid URL'')
                               else None)\<rparr>"

text \<open>The same database behind a driver that accepts every statement.\<close>

definition lenient_driver :: driver where
  "lenient_driver = shop_driver\<lparr>drv_execute := (\<lambda>tr q. None)\<rparr>"

text \<open>A database that cannot be reached.\<close>

definition down_driver :: driver where
  "down_driver = shop_driver\<lparr>drv_connect := (\<lambda>tr cs. Some (Error ''Login timeout expired''))\<rparr>"

text \<open>An environment whose password has no letter or digit.\<close>

definition leak_env :: environ where
  "leak_env = [''MSSQL_USER'' \<mapsto> ''sa'', ''MSSQL_PASSWORD'' \<mapsto> ''!@#$%^'',
               ''MSSQL_DATABASE'' \<mapsto> ''shop'']"

text \<open>An environment whose values still carry the quotes of a shell or of a file.\<close>

definition quoted_env :: environ where
  "quoted_env = [''MSSQL_USER'' \<mapsto> ''sa'', ''MSSQL_PASSWORD'' \<mapsto> ''secret1'',
                 ''MSSQL_DATABASE'' \<mapsto> dq # ''shop'' @ [dq],
                 ''Encrypt'' \<mapsto> dq # ''no'' @ [dq]]"

section \<open>Stepping through a run\<close>

lemmas io_defs = ret_def raise_def lift_def io_bind_def call_drv_def do_connect_def do_cursor_def
  do_execute_def do_commit_def do_fetchall_def get_columns_def get_rowcount_def

lemma no_raise_snoc [simp]: "no_raise (tr @ [e]) = (no_raise tr \<and> is_returned e)"
  by (simp add: no_raise_def)

lemma with_connect_step:
  "with_connect drv cs body tr =
     (case drv_connect drv tr cs of
        Some e \<Rightarrow> (Inl e, tr @ [Raised (Connect cs) e])
      | None \<Rightarrow> with_block ConnExit (drv_conn_exit drv) body (tr @ [Returned (Connect cs)]))"
  by (simp add: with_connect_def io_defs split: option.splits)

lemma with_cursor_step:
  "with_cursor drv body tr =
     (case drv_cursor drv tr of
        Some e \<Rightarrow> (Inl e, tr @ [Raised Cursor e])
      | None \<Rightarrow> with_block CursorExit (drv_cursor_exit drv) body (tr @ [Returned Cursor]))"
  by (simp add: with_cursor_def io_defs split: option.splits)

lemma with_block_no_raise:
  assumes "no_raise (snd (with_block c exit_fn body tr))"
  shows "no_raise (snd (body tr))"
    and "with_block c exit_fn body tr =
           (fst (body tr), snd (body tr) @ [Returned (c (leaving (fst (body tr))))])"
proof -
  obtain r tr' where b: "body tr = (r, tr')"
    by (cases "body tr")
  show "with_block c exit_fn body tr =
          (fst (body tr), snd (body tr) @ [Returned (c (leaving (fst (body tr))))])"
    using assms
    by (cases "exit_fn tr' (leaving r)")
       (simp_all add: with_block_def b)
  then show "no_raise (snd (body tr))"
    using assms by simp
qed

lemma with_connect_no_raise:
  assumes "no_raise (snd (with_connect drv cs body tr))"
  shows "no_raise (snd (body (tr @ [Returned (Connect cs)])))"
    and "with_connect drv cs body tr =
           (fst (body (tr @ [Returned (Connect cs)])),
            snd (body (tr @ [Returned (Connect cs)]))
              @ [Returned (ConnExit (leaving (fst (body (tr @ [Returned (Connect cs)])))))])"
proof -
  have w: "with_connect drv cs body tr =
             with_block ConnExit (drv_conn_exit drv) body (tr @ [Returned (Connect cs)])"
    using assms by (cases "drv_connect drv tr cs") (simp_all add: with_connect_step)
  from assms show "no_raise (snd (body (tr @ [Returned (Connect cs)])))"
    unfolding w by (rule with_block_no_raise)
  from assms show "with_connect drv cs body tr =
           (fst (body (tr @ [Returned (Connect cs)])),
            snd (body (tr @ [Returned (Connect cs)]))
              @ [Returned (ConnExit (leaving (fst (body (tr @ [Returned (Connect cs)])))))])"
    unfolding w by (rule with_block_no_raise)
qed

lemma with_cursor_no_raise:
  assumes "no_raise (snd (with_cursor drv body tr))"
  shows "no_raise (snd (body (tr @ [Returned Cursor])))"
    and "with_cursor drv body tr =
           (fst (body (tr @ [Returned Cursor])),
            snd (body (tr @ [Returned Cursor]))
              @ [Returned (CursorExit (leaving (fst (body (tr @ [Returned Cursor])))))])"
proof -
  have w: "with_cursor drv body tr =
             with_block CursorExit (drv_cursor_exit drv) body (tr @ [Returned Cursor])"
    using assms by (cases "drv_cursor drv tr") (simp_all add: with_cursor_step)
  from assms show "no_raise (snd (body (tr @ [Returned Cursor])))"
    unfolding w by (rule with_block_no_raise)
  from assms show "with_cursor drv body tr =
           (fst (body (tr @ [Returned Cursor])),
            snd (body (tr @ [Returned Cursor]))
              @ [Returned (CursorExit (leaving (fst (body (tr @ [Returned Cursor])))))])"
    unfolding w by (rule with_block_no_raise)
qed

lemma execute_no_raise:
  assumes "no_raise (snd (io_bind (do_execute drv q) k tr))"
  shows "io_bind (do_execute drv q) k tr = k () (tr @ [Returned (Execute q)])"
  using assms by (cases "drv_execute drv tr q") (simp_all add: io_defs)

lemma commit_no_raise:
  assumes "no_raise (snd (io_bind (do_commit drv) k tr))"
  shows "io_bind (do_commit drv) k tr = k () (tr @ [Returned Commit])"
  using assms by (cases "drv_commit drv tr") (simp_all add: io_defs)

lemma fetchall_no_raise:
  assumes "no_raise (snd (io_bind (do_fetchall drv) k tr))"
    and "drv_fetchall drv tr = Inr rows"
  shows "io_bind (do_fetchall drv) k tr = k rows (tr @ [Returned Fetchall])"
  using assms by (simp add: io_defs)

lemma try_except_all:
  "try_except m (\<lambda>e. Some (ret (h e))) tr =
     (case m tr of (Inl e, tr') \<Rightarrow> (Inr (h e), tr') | (Inr x, tr') \<Rightarrow> (Inr x, tr'))"
  by (simp add: try_except_def ret_def split: prod.splits sum.splits)

lemma call_tool_run:
  assumes "name = ''execute_sql''" and "arguments ''query'' = Some q" and "q \<noteq> []"
    and "snd (get_db_config env) = Inr (config, cs)"
  shows "call_tool drv env name arguments =
     (case run_query drv config cs q [] of
        (Inl e, tr') \<Rightarrow>
          (Inr [TextContent ''text'' (''Error executing query: '' @ exn_str e)], tr')
      | (Inr x, tr') \<Rightarrow> (Inr x, tr'))"
  using assms by (simp add: call_tool_def try_except_all split: prod.splits sum.splits)

lemma call_tool_trace:
  assumes "name = ''execute_sql''" and "arguments ''query'' = Some q" and "q \<noteq> []"
    and "snd (get_db_config env) = Inr (config, cs)"
  shows "snd (call_tool drv env name arguments) = snd (run_query drv config cs q [])"
  using assms by (simp add: call_tool_run split: prod.splits sum.splits)

lemma shop_config_ok: "snd (get_db_config shop_env) = Inr (shop_config, shop_cs)"
  by code_simp

section \<open>Statements that change data\<close>

text \<open>
  C3. A call of the tool \<open>execute_sql\<close> whose query, trimmed and in upper case, neither is
  \<open>SHOW TABLES\<close> nor starts with \<open>SELECT\<close>, and during which no call into the driver raises,
  makes exactly the calls connect, cursor, execute, commit and the two exits, in this order,
  and returns the one text \<open>Query executed successfully. Rows affected: N\<close>, where \<open>N\<close> is
  the row count that the driver reports after the commit, whatever its value.
\<close>

theorem call_tool_mutation_commits_and_reports:
  assumes "name = ''execute_sql''" and "arguments ''query'' = Some q" and "q \<noteq> []"
    and "snd (get_db_config env) = Inr (config, cs)"
    and "py_upper (py_strip q) \<noteq> ''SHOW TABLES''"
    and "\<not> startswith (py_upper (py_strip q)) ''SELECT''"
    and "no_raise (snd (call_tool drv env name arguments))"
  shows "call_tool drv env name arguments =
     (Inr [TextContent ''text'' (''Query executed successfully. Rows affected: ''
             @ str_int (drv_rowcount drv (executed cs q @ [Returned Commit])))],
      executed cs q @ [Returned Commit, Returned (CursorExit None), Returned (ConnExit None)])"
proof -
  let ?k = "\<lambda>u::unit. io_bind (do_commit drv) (\<lambda>u.
               io_bind (get_rowcount drv) (\<lambda>n.
               ret [TextContent ''text''
                      (''Query executed successfully. Rows affected: '' @ str_int n)]))"
  let ?cur = "io_bind (do_execute drv q) ?k"
  have run: "run_query drv config cs q = with_connect drv cs (with_cursor drv ?cur)"
    using assms(5,6) by (simp add: run_query_def)
  have ct: "call_tool drv env name arguments =
     (case run_query drv config cs q [] of
        (Inl e, tr') \<Rightarrow>
          (Inr [TextContent ''text'' (''Error executing query: '' @ exn_str e)], tr')
      | (Inr x, tr') \<Rightarrow> (Inr x, tr'))"
    using assms(1-4) by (rule call_tool_run)
  have "snd (call_tool drv env name arguments) = snd (run_query drv config cs q [])"
    using assms(1-4) by (rule call_tool_trace)
  with assms(7) have nr: "no_raise (snd (with_connect drv cs (with_cursor drv ?cur) []))"
    by (simp add: run)
  note c = with_connect_no_raise [OF nr]
  note d = with_cursor_no_raise [OF c(1)]
  note e = execute_no_raise [OF d(1)]
  have "no_raise (snd (?k () ([] @ [Returned (Connect cs)] @ [Returned Cursor] @ [Returned (Execute q)])))"
    using d(1) e by simp
  note f = commit_no_raise [OF this]
  have "run_query drv config cs q [] =
     (Inr [TextContent ''text'' (''Query executed successfully. Rows affected: ''
             @ str_int (drv_rowcount drv (executed cs q @ [Returned Commit])))],
      executed cs q @ [Returned Commit, Returned (CursorExit None), Returned (ConnExit None)])"
    unfolding run c(2) d(2) using e f
    by (simp add: get_rowcount_def ret_def io_bind_def executed_def leaving_def)
  then show ?thesis unfolding ct by simp
qed

theorem call_tool_mutation_commits_and_reports_witness:
  "no_raise (snd (call_tool shop_driver shop_env ''execute_sql'' [''query'' \<mapsto> delete_none])) \<and>
   call_tool shop_driver shop_env ''execute_sql'' [''query'' \<mapsto> delete_none] =
     (Inr [TextContent ''text'' ''Query executed successfully. Rows affected: 0''],
      [Returned (Connect shop_cs), Returned Cursor, Returned (Execute delete_none),
       Returned Commit, Returned (CursorExit None), Returned (ConnExit None)])"
proof -
  have h2: "[''query'' \<mapsto> delete_none] ''query'' = Some delete_none"
    by simp
  have h3: "delete_none \<noteq> []"
    by (simp add: delete_none_def)
  have h5: "py_upper (py_strip delete_none) \<noteq> ''SHOW TABLES''"
    by code_simp
  have h6: "\<not> startswith (py_upper (py_strip delete_none)) ''SELECT''"
    by code_simp
  have h7: "no_raise (snd (call_tool shop_driver shop_env ''execute_sql'' [''query'' \<mapsto> delete_none]))"
    by code_simp
  have n: "str_int (drv_rowcount shop_driver (executed shop_cs delete_none @ [Returned Commit])) = ''0''"
    by code_simp
  show ?thesis
    using call_tool_mutation_commits_and_reports [OF refl h2 h3 shop_config_ok h5 h6 h7] h7 n
    by (simp add: executed_def)
qed

section \<open>Releasing the connection\<close>

lemma adds_onlyI:
  assumes "\<And>tr. \<exists>ext. snd (m tr) = tr @ ext \<and> list_all P ext"
  shows "adds_only P m"
  using assms by (simp add: adds_only_def)

lemma adds_onlyD:
  assumes "adds_only P m" and "m tr = (r, tr1)"
  obtains ext where "tr1 = tr @ ext" and "list_all P ext"
proof -
  from assms(1) obtain ext where "snd (m tr) = tr @ ext \<and> list_all P ext"
    unfolding adds_only_def by blast
  with assms(2) have "tr1 = tr @ ext" and "list_all P ext"
    by simp_all
  then show thesis by (rule that)
qed

lemma adds_only_ret: "adds_only P (ret x)"
  by (simp add: adds_only_def ret_def)

lemma adds_only_lift: "adds_only P (lift r)"
  by (simp add: adds_only_def lift_def)

lemma adds_only_get_columns: "adds_only P (get_columns drv)"
  by (simp add: adds_only_def get_columns_def split: option.splits)

lemma adds_only_get_rowcount: "adds_only P (get_rowcount drv)"
  by (simp add: adds_only_def get_rowcount_def)

lemma adds_only_call:
  assumes "P (Returned c)" and "\<And>e. P (Raised c e)"
  shows "adds_only P (call_drv c answer)"
  using assms by (simp add: adds_only_def call_drv_def split: option.splits)

lemma adds_only_fetchall:
  assumes "P (Returned Fetchall)" and "\<And>e. P (Raised Fetchall e)"
  shows "adds_only P (do_fetchall drv)"
  using assms by (simp add: adds_only_def do_fetchall_def split: sum.splits)

lemma adds_only_bind:
  assumes "adds_only P m" and "\<And>x. adds_only P (f x)"
  shows "adds_only P (io_bind m f)"
proof (rule adds_onlyI)
  fix tr
  obtain r tr1 where m: "m tr = (r, tr1)"
    by (cases "m tr")
  from assms(1) m obtain ext1 where e1: "tr1 = tr @ ext1" "list_all P ext1"
    by (rule adds_onlyD)
  show "\<exists>ext. snd (io_bind m f tr) = tr @ ext \<and> list_all P ext"
  proof (cases r)
    case (Inl e)
    then show ?thesis using m e1 by (simp add: io_bind_def)
  next
    case (Inr x)
    obtain r2 tr2 where f: "f x tr1 = (r2, tr2)"
      by (cases "f x tr1")
    from assms(2) [of x] f obtain ext2 where e2: "tr2 = tr1 @ ext2" "list_all P ext2"
      by (rule adds_onlyD)
    have "snd (io_bind m f tr) = tr @ (ext1 @ ext2)"
      using Inr m f e1 e2 by (simp add: io_bind_def)
    moreover have "list_all P (ext1 @ ext2)"
      using e1 e2 by simp
    ultimately show ?thesis by blast
  qed
qed

lemma adds_only_with_block:
  assumes "adds_only P body" and "\<And>p. P (Returned (c p))" and "\<And>p e. P (Raised (c p) e)"
  shows "adds_only P (with_block c exit_fn body)"
proof (rule adds_onlyI)
  fix tr
  obtain r tr1 where b: "body tr = (r, tr1)"
    by (cases "body tr")
  from assms(1) b obtain ext1 where e1: "tr1 = tr @ ext1" "list_all P ext1"
    by (rule adds_onlyD)
  show "\<exists>ext. snd (with_block c exit_fn body tr) = tr @ ext \<and> list_all P ext"
    using b e1 assms(2,3)
    by (cases "exit_fn tr1 (leaving r)")
       (simp_all add: with_block_def)
qed

lemma adds_only_if:
  assumes "adds_only P a" and "adds_only P b"
  shows "adds_only P (if c then a else b)"
  using assms by simp

lemma adds_only_with_cursor:
  assumes "adds_only P body" and "P (Returned Cursor)" and "\<And>e. P (Raised Cursor e)"
    and "\<And>p. P (Returned (CursorExit p))" and "\<And>p e. P (Raised (CursorExit p) e)"
  shows "adds_only P (with_cursor drv body)"
  unfolding with_cursor_def do_cursor_def
  using assms by (intro adds_only_bind adds_only_call adds_only_with_block)

lemma inside_conn_simps [simp]:
  "inside_conn (Returned Cursor)" "inside_conn (Raised Cursor e)"
  "inside_conn (Returned (CursorExit p))" "inside_conn (Raised (CursorExit p) e)"
  "inside_conn (Returned (Execute q))" "inside_conn (Raised (Execute q) e)"
  "inside_conn (Returned Fetchall)" "inside_conn (Raised Fetchall e)"
  "inside_conn (Returned Commit)" "inside_conn (Raised Commit e)"
  by (simp_all add: inside_conn_def)

lemma released_with_connect:
  assumes "adds_only inside_conn body"
  shows "released_once (snd (with_connect drv cs body []))"
proof (cases "drv_connect drv [] cs")
  case (Some e)
  then show ?thesis
    by (simp add: with_connect_step released_once_def conn_opened_def conn_exited_def)
next
  case None
  obtain r tr1 where b: "body [Returned (Connect cs)] = (r, tr1)"
    by (cases "body [Returned (Connect cs)]")
  from assms b obtain ext1 where e1: "tr1 = [Returned (Connect cs)] @ ext1"
    "list_all inside_conn ext1"
    by (rule adds_onlyD)
  have f: "filter is_conn_open ext1 = []" "filter is_conn_exit ext1 = []"
    using e1(2) by (simp_all add: list_all_iff filter_empty_conv inside_conn_def)
  show ?thesis
    using None b e1(1) f
    by (cases "drv_conn_exit drv tr1 (leaving r)")
       (simp_all add: with_connect_step with_block_def released_once_def conn_opened_def conn_exited_def)
qed

lemma try_except_trace:
  assumes "\<And>e h tr. handler e = Some h \<Longrightarrow> snd (h tr) = tr"
  shows "snd (try_except m handler tr) = snd (m tr)"
proof -
  obtain r tr1 where b: "m tr = (r, tr1)"
    by (cases "m tr")
  show ?thesis
    using assms b by (cases r; cases "handler (projl r)") (simp_all add: try_except_def)
qed

lemma released_nil: "released_once []"
  by (simp add: released_once_def conn_opened_def conn_exited_def)

lemma released_list_tables: "released_once (snd (list_tables drv cs []))"
  unfolding list_tables_def do_execute_def
  by (intro released_with_connect adds_only_with_cursor adds_only_bind adds_only_call
        adds_only_fetchall adds_only_lift) simp_all

lemma released_read_table: "released_once (snd (read_table drv cs table []))"
  unfolding read_table_def do_execute_def
  by (intro released_with_connect adds_only_with_cursor adds_only_bind adds_only_call
        adds_only_fetchall adds_only_get_columns adds_only_ret) simp_all

lemma released_run_query: "released_once (snd (run_query drv config cs q []))"
  unfolding run_query_def do_execute_def do_commit_def
  by (intro released_with_connect adds_only_with_cursor adds_only_bind adds_only_call
        adds_only_fetchall adds_only_get_columns adds_only_get_rowcount adds_only_ret
        adds_only_lift adds_only_if) simp_all

lemma py_split_nonempty [simp]: "py_split c s \<noteq> []"
  by (induction s) (auto split: list.splits)

lemma list_resources_trace:
  assumes "snd (get_db_config env) = Inr (config, cs)"
  shows "snd (list_resources drv env) = snd (list_tables drv cs [])"
  using assms
  apply (simp add: list_resources_def)
  apply (rule try_except_trace)
  apply (auto simp: ret_def split: exn.splits)
  done

lemma read_resource_trace:
  assumes "snd (get_db_config env) = Inr (config, cs)"
    and "startswith uri_str ''mssql://''"
    and "py_split CHR ''/'' (drop 8 uri_str) = table # rest"
  shows "snd (read_resource drv env uri_str) = snd (read_table drv cs table [])"
  using assms
  apply (simp add: read_resource_def)
  apply (rule try_except_trace)
  apply (auto simp: raise_def split: exn.splits)
  done

lemma adds_only_with_connect:
  assumes "adds_only P body"
    and "P (Returned (Connect cs))" and "\<And>e. P (Raised (Connect cs) e)"
    and "\<And>p. P (Returned (ConnExit p))" and "\<And>p e. P (Raised (ConnExit p) e)"
  shows "adds_only P (with_connect drv cs body)"
  unfolding with_connect_def do_connect_def
  using assms by (intro adds_only_bind adds_only_call adds_only_with_block)

lemma not_close_simps [simp]:
  "not_close (Returned (Connect cs))" "not_close (Returned Cursor)"
  "not_close (Returned (Execute q))" "not_close (Returned Fetchall)"
  "not_close (Returned Commit)" "not_close (Returned (CursorExit p))"
  "not_close (Returned (ConnExit p))" "not_close (Raised c e)"
  by (simp_all add: not_close_def)

lemma never_closes:
  assumes "adds_only not_close m"
  shows "\<not> list_ex closes (snd (m []))"
proof -
  obtain r tr where b: "m [] = (r, tr)"
    by (cases "m []")
  from assms b obtain ext where "tr = [] @ ext" and "list_all not_close ext"
    by (rule adds_onlyD)
  with b show ?thesis
    by (auto simp: list_ex_iff list_all_iff not_close_def)
qed

lemma never_closes_list_tables: "\<not> list_ex closes (snd (list_tables drv cs []))"
  unfolding list_tables_def do_execute_def
  by (intro never_closes adds_only_with_connect adds_only_with_cursor adds_only_bind
        adds_only_call adds_only_fetchall adds_only_lift) simp_all

lemma never_closes_read_table: "\<not> list_ex closes (snd (read_table drv cs table []))"
  unfolding read_table_def do_execute_def
  by (intro never_closes adds_only_with_connect adds_only_with_cursor adds_only_bind
        adds_only_call adds_only_fetchall adds_only_get_columns adds_only_ret) simp_all

lemma never_closes_run_query: "\<not> list_ex closes (snd (run_query drv config cs q []))"
  unfolding run_query_def do_execute_def do_commit_def
  by (intro never_closes adds_only_with_connect adds_only_with_cursor adds_only_bind
        adds_only_call adds_only_fetchall adds_only_get_columns adds_only_get_rowcount
        adds_only_ret adds_only_lift adds_only_if) simp_all

text \<open>The trace of a handler is empty or that of its \<^verbatim>\<open>try\<close> block.\<close>

lemma list_resources_trace_cases:
  "snd (list_resources drv env) = [] \<or>
   (\<exists>cs. snd (list_resources drv env) = snd (list_tables drv cs []))"
proof (cases "snd (get_db_config env)")
  case (Inl e)
  then show ?thesis by (simp add: list_resources_def)
next
  case (Inr p)
  then obtain config cs where "snd (get_db_config env) = Inr (config, cs)"
    by (cases p) simp
  then have "snd (list_resources drv env) = snd (list_tables drv cs [])"
    by (rule list_resources_trace)
  then show ?thesis by blast
qed

lemma read_resource_trace_cases:
  "snd (read_resource drv env uri_str) = [] \<or>
   (\<exists>cs table. snd (read_resource drv env uri_str) = snd (read_table drv cs table []))"
proof (cases "snd (get_db_config env)")
  case (Inl e)
  then show ?thesis by (simp add: read_resource_def)
next
  case (Inr p)
  then obtain config cs where c: "snd (get_db_config env) = Inr (config, cs)"
    by (cases p) simp
  show ?thesis
  proof (cases "startswith uri_str ''mssql://''")
    case False
    then show ?thesis using c by (simp add: read_resource_def)
  next
    case True
    obtain table rest where "py_split CHR ''/'' (drop 8 uri_str) = table # rest"
      by (cases "py_split CHR ''/'' (drop 8 uri_str)") simp_all
    with c True have "snd (read_resource drv env uri_str) = snd (read_table drv cs table [])"
      by (rule read_resource_trace)
    then show ?thesis by blast
  qed
qed

lemma call_tool_trace_cases:
  "snd (call_tool drv env name arguments) = [] \<or>
   (\<exists>config cs q. snd (call_tool drv env name arguments) = snd (run_query drv config cs q []))"
proof (cases "snd (get_db_config env)")
  case (Inl e)
  then show ?thesis by (simp add: call_tool_def)
next
  case (Inr p)
  then obtain config cs where c: "snd (get_db_config env) = Inr (config, cs)"
    by (cases p) simp
  show ?thesis
  proof (cases "name = ''execute_sql'' \<and> (\<exists>q. arguments ''query'' = Some q \<and> q \<noteq> [])")
    case False
    then show ?thesis using c
      by (cases "arguments ''query''") (auto simp: call_tool_def)
  next
    case True
    then obtain q where "name = ''execute_sql''" "arguments ''query'' = Some q" "q \<noteq> []"
      by blast
    then have "snd (call_tool drv env name arguments) = snd (run_query drv config cs q [])"
      using c by (rule call_tool_trace)
    then show ?thesis by blast
  qed
qed

text \<open>
  In every run of \<^verbatim>\<open>list_resources\<close>, \<^verbatim>\<open>read_resource\<close> and \<^verbatim>\<open>call_tool\<close>, whatever the
  driver answers or raises and whatever the handler returns or raises, at most one
  connection is opened, the block of each opened connection is left exactly once, and
  leaving it is the last thing the handler does with the driver.
\<close>

lemma connection_block_left_exactly_once:
  "released_once (snd (list_resources drv env)) \<and>
   released_once (snd (read_resource drv env uri_str)) \<and>
   released_once (snd (call_tool drv env name arguments))"
  using list_resources_trace_cases [of drv env] read_resource_trace_cases [of drv env uri_str]
    call_tool_trace_cases [of drv env name arguments]
  by (auto simp: released_nil released_list_tables released_read_table released_run_query)

text \<open>And in no run does a handler close a connection.\<close>

lemma handlers_never_close:
  "\<not> list_ex closes (snd (list_resources drv env)) \<and>
   \<not> list_ex closes (snd (read_resource drv env uri_str)) \<and>
   \<not> list_ex closes (snd (call_tool drv env name arguments))"
  using list_resources_trace_cases [of drv env] read_resource_trace_cases [of drv env uri_str]
    call_tool_trace_cases [of drv env name arguments]
  by (auto simp: never_closes_list_tables never_closes_read_table never_closes_run_query)

text \<open>
  C1. The claim is that each connection a handler opens is closed exactly once before the
  handler returns or raises. The handlers never call \<^verbatim>\<open>close\<close>: they leave the block of the
  connection, which for this driver commits or rolls back and does not close. In the runs
  of the three handlers against the sample database, one of which raises, one connection
  is opened, its block is left once, and nothing closes the connection.
\<close>

theorem connection_left_open:
  "snd (list_resources shop_driver shop_env) =
     [Returned (Connect shop_cs), Returned Cursor, Returned (Execute catalog_query),
      Returned Fetchall, Returned (CursorExit None), Returned (ConnExit None)] \<and>
   conn_opened (snd (list_resources shop_driver shop_env)) = 1 \<and>
   conn_exited (snd (list_resources shop_driver shop_env)) = 1 \<and>
   \<not> list_ex closes (snd (list_resources shop_driver shop_env)) \<and>
   fst (read_resource shop_driver shop_env ''mssql://Orders/data'') =
     Inl (RuntimeError ''Database error: Statement could not be prepared'') \<and>
   conn_opened (snd (read_resource shop_driver shop_env ''mssql://Orders/data'')) = 1 \<and>
   conn_exited (snd (read_resource shop_driver shop_env ''mssql://Orders/data'')) = 1 \<and>
   \<not> list_ex closes (snd (read_resource shop_driver shop_env ''mssql://Orders/data'')) \<and>
   conn_opened (snd (call_tool shop_driver shop_env ''execute_sql'' [''query'' \<mapsto> delete_none])) = 1 \<and>
   conn_exited (snd (call_tool shop_driver shop_env ''execute_sql'' [''query'' \<mapsto> delete_none])) = 1 \<and>
   \<not> list_ex closes (snd (call_tool shop_driver shop_env ''execute_sql'' [''query'' \<mapsto> delete_none]))"
  by code_simp

section \<open>Errors of the query tool\<close>

lemma with_block_Inr:
  assumes "with_block c exit_fn body tr = (Inr v, tr')"
  shows "\<exists>tr''. body tr = (Inr v, tr'')"
proof -
  obtain r tr1 where b: "body tr = (r, tr1)"
    by (cases "body tr")
  show ?thesis
    using assms b
    by (cases "exit_fn tr1 (leaving r)")
       (simp_all add: with_block_def)
qed

lemma with_connect_Inr:
  assumes "with_connect drv cs body tr = (Inr v, tr')"
  shows "\<exists>tr1 tr2. body tr1 = (Inr v, tr2)"
  using assms
  by (cases "drv_connect drv tr cs") (auto simp: with_connect_step dest!: with_block_Inr)

lemma with_cursor_Inr:
  assumes "with_cursor drv body tr = (Inr v, tr')"
  shows "\<exists>tr1 tr2. body tr1 = (Inr v, tr2)"
  using assms
  by (cases "drv_cursor drv tr") (auto simp: with_cursor_step dest!: with_block_Inr)

lemma bind_Inr:
  assumes "io_bind m f tr = (Inr v, tr')"
  shows "\<exists>x tr1 tr2. f x tr1 = (Inr v, tr2)"
proof -
  obtain r tr1 where b: "m tr = (r, tr1)"
    by (cases "m tr")
  show ?thesis
    using assms b by (cases r) (auto simp: io_bind_def)
qed

lemma run_query_result:
  assumes "run_query drv config cs q tr = (Inr v, tr')"
  shows "\<exists>t. v = [TextContent ''text'' t]"
  using assms unfolding run_query_def
  apply -
  apply (drule with_connect_Inr)
  apply (elim exE)
  apply (drule with_cursor_Inr)
  apply (elim exE)
  apply (drule bind_Inr)
  apply (elim exE)
  apply (simp only: split: if_splits)
   apply (auto dest!: bind_Inr simp: ret_def)
  done

text \<open>
  C4. A call of the tool \<open>execute_sql\<close> with a query that is not empty, under a configuration
  that resolves, always returns one text and never raises; and when the \<^verbatim>\<open>try\<close> block
  (opening the connection, executing, serialising, leaving the blocks) raises \<open>e\<close>, the text
  is \<open>Error executing query: \<close> followed by \<^verbatim>\<open>str(e)\<close>.
\<close>

theorem call_tool_errors_become_text:
  assumes "name = ''execute_sql''" and "arguments ''query'' = Some q" and "q \<noteq> []"
    and "snd (get_db_config env) = Inr (config, cs)"
  shows "(\<exists>t. fst (call_tool drv env name arguments) = Inr [TextContent ''text'' t]) \<and>
         (\<forall>e tr. run_query drv config cs q [] = (Inl e, tr) \<longrightarrow>
            call_tool drv env name arguments =
              (Inr [TextContent ''text'' (''Error executing query: '' @ exn_str e)], tr))"
proof -
  have ct: "call_tool drv env name arguments =
     (case run_query drv config cs q [] of
        (Inl e, tr') \<Rightarrow>
          (Inr [TextContent ''text'' (''Error executing query: '' @ exn_str e)], tr')
      | (Inr x, tr') \<Rightarrow> (Inr x, tr'))"
    using assms by (rule call_tool_run)
  obtain r tr1 where b: "run_query drv config cs q [] = (r, tr1)"
    by (cases "run_query drv config cs q []")
  have "\<exists>t. fst (call_tool drv env name arguments) = Inr [TextContent ''text'' t]"
  proof (cases r)
    case (Inl e)
    then show ?thesis unfolding ct b by simp
  next
    case (Inr v)
    with b obtain t where "v = [TextContent ''text'' t]"
      by (blast dest: run_query_result)
    with Inr show ?thesis unfolding ct b by simp
  qed
  moreover have "\<forall>e tr. run_query drv config cs q [] = (Inl e, tr) \<longrightarrow>
            call_tool drv env name arguments =
              (Inr [TextContent ''text'' (''Error executing query: '' @ exn_str e)], tr)"
    unfolding ct by simp
  ultimately show ?thesis by blast
qed

theorem call_tool_errors_become_text_witness:
  "call_tool shop_driver shop_env ''execute_sql'' [''query'' \<mapsto> ''DROP TABLE DoesNotExist''] =
     (Inr [TextContent ''text'' ''Error executing query: Statement could not be prepared''],
      [Returned (Connect shop_cs), Returned Cursor,
       Raised (Execute ''DROP TABLE DoesNotExist'') (Error ''Statement could not be prepared''),
       Returned (CursorExit (Some (Error ''Statement could not be prepared''))),
       Returned (ConnExit (Some (Error ''Statement could not be prepared'')))])"
proof -
  have r: "run_query shop_driver shop_config shop_cs ''DROP TABLE DoesNotExist'' [] =
     (Inl (Error ''Statement could not be prepared''),
      [Returned (Connect shop_cs), Returned Cursor,
       Raised (Execute ''DROP TABLE DoesNotExist'') (Error ''Statement could not be prepared''),
       Returned (CursorExit (Some (Error ''Statement could not be prepared''))),
       Returned (ConnExit (Some (Error ''Statement could not be prepared'')))])"
    by code_simp
  have h2: "[''query'' \<mapsto> ''DROP TABLE DoesNotExist''] ''query'' = Some ''DROP TABLE DoesNotExist''"
    by simp
  have h3: "''DROP TABLE DoesNotExist'' \<noteq> []"
    by simp
  show ?thesis
    using call_tool_errors_become_text [where name = "''execute_sql''" and arguments = "[''query'' \<mapsto> ''DROP TABLE DoesNotExist'']"
          and q = "''DROP TABLE DoesNotExist''" and env = shop_env and config = shop_config
          and cs = shop_cs and drv = shop_driver] h2 h3 shop_config_ok r
    by simp
qed

section \<open>A database that cannot be reached\<close>

text \<open>
  C6. Under a configuration that resolves, when opening the connection raises a database
  error, \<^verbatim>\<open>list_resources\<close> returns the empty list and raises nothing, and
  \<^verbatim>\<open>read_resource\<close> on an address with the scheme prefix raises the runtime error
  \<open>Database error: \<close> followed by the text of the database error.
\<close>

theorem listing_degrades_reading_raises:
  assumes "snd (get_db_config env) = Inr (config, cs)"
    and "drv_connect drv [] cs = Some (Error m)"
    and "startswith uri_str ''mssql://''"
  shows "list_resources drv env = (Inr [], [Raised (Connect cs) (Error m)]) \<and>
         read_resource drv env uri_str =
           (Inl (RuntimeError (''Database error: '' @ m)), [Raised (Connect cs) (Error m)])"
proof -
  have l: "list_tables drv cs [] = (Inl (Error m), [Raised (Connect cs) (Error m)])"
    using assms(2) by (simp add: list_tables_def with_connect_step)
  have r: "read_table drv cs table [] = (Inl (Error m), [Raised (Connect cs) (Error m)])" for table
    using assms(2) by (simp add: read_table_def with_connect_step)
  obtain table rest where t: "py_split CHR ''/'' (drop 8 uri_str) = table # rest"
    by (cases "py_split CHR ''/'' (drop 8 uri_str)") simp_all
  have "list_resources drv env = (Inr [], [Raised (Connect cs) (Error m)])"
    using assms(1) l by (simp add: list_resources_def try_except_def ret_def)
  moreover have "read_resource drv env uri_str =
           (Inl (RuntimeError (''Database error: '' @ m)), [Raised (Connect cs) (Error m)])"
    using assms(1,3) t r by (simp add: read_resource_def try_except_def raise_def)
  ultimately show ?thesis by simp
qed

theorem listing_degrades_reading_raises_witness:
  "list_resources down_driver shop_env = (Inr [], [Raised (Connect shop_cs) (Error ''Login timeout expired'')]) \<and>
   read_resource down_driver shop_env ''mssql://Customers/data'' =
     (Inl (RuntimeError ''Database error: Login timeout expired''),
      [Raised (Connect shop_cs) (Error ''Login timeout expired'')])"
proof -
  have h2: "drv_connect down_driver [] shop_cs = Some (Error ''Login timeout expired'')"
    by (simp add: down_driver_def)
  have h3: "startswith ''mssql://Customers/data'' ''mssql://''"
    by (simp add: startswith_def)
  show ?thesis
    using listing_degrades_reading_raises [OF shop_config_ok h2 h3] by simp
qed

section \<open>Reading a table\<close>

lemma py_split_length: "length (py_split c s) = Suc (count_char c s)"
  by (induction s) (auto simp: count_char_def split: list.splits)





lemma set_py_join_elem: "x \<in> set xs \<Longrightarrow> set x \<subseteq> set (py_join sep xs)"
  by (induction sep xs rule: py_join.induct) auto

lemma count_char_append [simp]: "count_char c (a @ b) = count_char c a + count_char c b"
  by (simp add: count_char_def)

lemma count_char_pos: "c \<in> set s \<Longrightarrow> 0 < count_char c s"
  by (simp add: count_char_def filter_empty_conv)

lemma count_py_join:
  "count_char c (py_join [c] xs) = (length xs - 1) + sum_list (map (count_char c) xs)"
  by (induction "[c]" xs rule: py_join.induct) (simp_all add: count_char_def)

lemma sum_list_pos:
  assumes "x \<in> set xs" and "0 < f x"
  shows "0 < sum_list (map f xs :: nat list)"
  using assms by (induction xs) auto

lemma fields_row_line_comma:
  assumes "c \<in> set row" and "CHR '','' \<in> set (py_str c)"
  shows "length row < length (fields (row_line row))"
proof -
  have "0 < sum_list (map (count_char CHR '','') (map py_str row))"
    using assms by (intro sum_list_pos [of "py_str c"]) (simp_all add: count_char_pos)
  moreover have "row \<noteq> []"
    using assms(1) by auto
  ultimately show ?thesis
    by (simp add: fields_def row_line_def py_split_length count_py_join)
qed

lemma lines_table_text_newline:
  assumes "row \<in> set rows" and "c \<in> set row" and "nl \<in> set (py_str c)"
  shows "1 + length rows < length (lines (table_text columns rows))"
proof -
  have "nl \<in> set (row_line row)"
    using assms(2,3) set_py_join_elem [of "py_str c" "map py_str row" "'',''"]
    by (auto simp: row_line_def)
  then have "0 < count_char nl (row_line row)"
    by (rule count_char_pos)
  then have "0 < sum_list (map (count_char nl) (map row_line rows))"
    using assms(1) by (intro sum_list_pos [of "row_line row"]) simp_all
  then show ?thesis
    by (simp add: lines_def table_text_def py_split_length count_py_join)
qed


lemma read_table_run:
  assumes "no_raise (snd (read_table drv cs table []))"
    and "drv_description drv (executed cs (''SELECT TOP 100 * FROM '' @ table)) = Some columns"
    and "drv_fetchall drv (executed cs (''SELECT TOP 100 * FROM '' @ table)) = Inr rows"
  shows "read_table drv cs table [] =
     (Inr (table_text columns rows),
      executed cs (''SELECT TOP 100 * FROM '' @ table)
        @ [Returned Fetchall, Returned (CursorExit None), Returned (ConnExit None)])"
proof -
  let ?q = "''SELECT TOP 100 * FROM '' @ table"
  let ?k = "\<lambda>u::unit. io_bind (get_columns drv) (\<lambda>columns.
              io_bind (do_fetchall drv) (\<lambda>rows. ret (table_text columns rows)))"
  have run: "read_table drv cs table = with_connect drv cs (with_cursor drv (io_bind (do_execute drv ?q) ?k))"
    by (simp only: read_table_def)
  from assms(1) have nr: "no_raise (snd (with_connect drv cs (with_cursor drv (io_bind (do_execute drv ?q) ?k)) []))"
    by (simp only: run)
  note c = with_connect_no_raise [OF nr]
  note d = with_cursor_no_raise [OF c(1)]
  note e = execute_no_raise [OF d(1)]
  show ?thesis
    unfolding run c(2) d(2) using e assms(2,3)
    by (simp add: io_bind_def get_columns_def do_fetchall_def ret_def executed_def leaving_def)
qed

lemma read_resource_run:
  assumes "snd (get_db_config env) = Inr (config, cs)"
    and "startswith uri_str ''mssql://''"
    and "py_split CHR ''/'' (drop 8 uri_str) = table # rest"
  shows "read_resource drv env uri_str =
     (case read_table drv cs table [] of
        (Inl (Error m), tr') \<Rightarrow> (Inl (RuntimeError (''Database error: '' @ m)), tr')
      | (r, tr') \<Rightarrow> (r, tr'))"
  using assms
  by (simp add: read_resource_def try_except_def raise_def split: prod.splits sum.splits exn.splits)




section \<open>Queries that return rows\<close>

text \<open>White space beyond ASCII is trimmed as \<^verbatim>\<open>str.strip()\<close> trims it.\<close>

lemma select_after_no_break_space:
  "startswith (py_upper (py_strip (char_of (160 :: nat) # ''select 1'' @ [char_of (133 :: nat)]))) ''SELECT''"
  by code_simp

lemma show_tables_not_select: "\<not> startswith ''SHOW TABLES'' ''SELECT''"
  by (simp add: startswith_def)

lemma select_not_empty:
  assumes "startswith (py_upper (py_strip q)) ''SELECT''"
  shows "q \<noteq> []"
  using assms by (auto simp: startswith_def py_upper_def py_strip_def)

lemma select_branch:
  assumes "startswith (py_upper (py_strip q)) ''SELECT''"
  shows "run_query drv config cs q =
     with_connect drv cs
       (with_cursor drv
          (io_bind (do_execute drv q) (\<lambda>u.
             io_bind (get_columns drv) (\<lambda>columns.
             io_bind (do_fetchall drv) (\<lambda>rows.
             ret [TextContent ''text'' (table_text columns rows)])))))"
proof -
  have "py_upper (py_strip q) \<noteq> ''SHOW TABLES''"
    using assms show_tables_not_select by auto
  then show ?thesis
    using assms by (simp add: run_query_def)
qed

lemma select_run:
  assumes "startswith (py_upper (py_strip q)) ''SELECT''"
    and "no_raise (snd (run_query drv config cs q []))"
    and "drv_description drv (executed cs q) = Some columns"
    and "drv_fetchall drv (executed cs q) = Inr rows"
  shows "run_query drv config cs q [] =
     (Inr [TextContent ''text'' (table_text columns rows)],
      executed cs q @ [Returned Fetchall, Returned (CursorExit None), Returned (ConnExit None)])"
proof -
  let ?k = "\<lambda>u::unit. io_bind (get_columns drv) (\<lambda>columns.
              io_bind (do_fetchall drv) (\<lambda>rows.
              ret [TextContent ''text'' (table_text columns rows)]))"
  have run: "run_query drv config cs q = with_connect drv cs (with_cursor drv (io_bind (do_execute drv q) ?k))"
    using assms(1) by (rule select_branch)
  from assms(2) have nr: "no_raise (snd (with_connect drv cs (with_cursor drv (io_bind (do_execute drv q) ?k)) []))"
    by (simp only: run)
  note c = with_connect_no_raise [OF nr]
  note d = with_cursor_no_raise [OF c(1)]
  note e = execute_no_raise [OF d(1)]
  show ?thesis
    unfolding run c(2) d(2) using e assms(3,4)
    by (simp add: io_bind_def get_columns_def do_fetchall_def ret_def executed_def leaving_def)
qed

lemma not_commit_simps [simp]:
  "not_commit (Returned (Connect cs))" "not_commit (Raised (Connect cs) e)"
  "not_commit (Returned (ConnExit p))" "not_commit (Raised (ConnExit p) e)"
  "not_commit (Returned Cursor)" "not_commit (Raised Cursor e)"
  "not_commit (Returned (CursorExit p))" "not_commit (Raised (CursorExit p) e)"
  "not_commit (Returned (Execute q))" "not_commit (Raised (Execute q) e)"
  "not_commit (Returned Fetchall)" "not_commit (Raised Fetchall e)"
  by (simp_all add: not_commit_def)

lemma select_no_commit:
  assumes "startswith (py_upper (py_strip q)) ''SELECT''"
  shows "\<not> list_ex is_commit (snd (run_query drv config cs q []))"
proof -
  have "adds_only not_commit (run_query drv config cs q)"
    unfolding select_branch [OF assms] with_connect_def do_connect_def do_execute_def
    by (intro adds_only_with_cursor adds_only_bind adds_only_call adds_only_with_block
          adds_only_fetchall adds_only_get_columns adds_only_ret) simp_all
  moreover obtain r tr where "run_query drv config cs q [] = (r, tr)"
    by (cases "run_query drv config cs q []")
  ultimately obtain ext where "tr = [] @ ext" and "list_all not_commit ext"
    by (rule adds_onlyD)
  then show ?thesis
    using \<open>run_query drv config cs q [] = (r, tr)\<close>
    by (auto simp: list_ex_iff list_all_iff not_commit_def)
qed

lemma select_Inr:
  assumes "startswith (py_upper (py_strip q)) ''SELECT''"
    and "run_query drv config cs q [] = (Inr v, tr)"
  shows "\<exists>columns rows. drv_description drv (executed cs q) = Some columns \<and>
           drv_fetchall drv (executed cs q) = Inr rows \<and>
           v = [TextContent ''text'' (table_text columns rows)]"
proof -
  let ?k = "\<lambda>u::unit. io_bind (get_columns drv) (\<lambda>columns.
              io_bind (do_fetchall drv) (\<lambda>rows.
              ret [TextContent ''text'' (table_text columns rows)]))"
  have run: "run_query drv config cs q = with_connect drv cs (with_cursor drv (io_bind (do_execute drv q) ?k))"
    using assms(1) by (rule select_branch)
  have c: "drv_connect drv [] cs = None"
    using assms(2) unfolding run by (cases "drv_connect drv [] cs") (simp_all add: with_connect_step)
  then obtain tr1 where b1: "with_cursor drv (io_bind (do_execute drv q) ?k) [Returned (Connect cs)] = (Inr v, tr1)"
    using assms(2) unfolding run by (auto simp: with_connect_step dest!: with_block_Inr)
  have d: "drv_cursor drv [Returned (Connect cs)] = None"
    using b1 by (cases "drv_cursor drv [Returned (Connect cs)]") (simp_all add: with_cursor_step)
  then obtain tr2 where b2: "io_bind (do_execute drv q) ?k [Returned (Connect cs), Returned Cursor] = (Inr v, tr2)"
    using b1 by (auto simp: with_cursor_step dest!: with_block_Inr)
  have e: "drv_execute drv [Returned (Connect cs), Returned Cursor] q = None"
    using b2 by (cases "drv_execute drv [Returned (Connect cs), Returned Cursor] q") (simp_all add: io_defs)
  then have b3: "?k () (executed cs q) = (Inr v, tr2)"
    using b2 by (simp add: io_defs executed_def)
  show ?thesis
  proof (cases "drv_description drv (executed cs q)")
    case None
    then show ?thesis using b3 by (simp add: io_bind_def get_columns_def)
  next
    case (Some columns)
    show ?thesis
    proof (cases "drv_fetchall drv (executed cs q)")
      case (Inl x)
      then show ?thesis using b3 Some by (simp add: io_bind_def get_columns_def do_fetchall_def)
    next
      case (Inr rows)
      then show ?thesis using b3 Some
        by (simp add: io_bind_def get_columns_def do_fetchall_def ret_def)
    qed
  qed
qed

lemma startswith_append [simp]: "startswith (p @ s) p"
  by (simp add: startswith_def)

text \<open>
  C2 (as amended). For a call of the tool \<open>execute_sql\<close> whose query, trimmed and in upper
  case, starts with \<open>SELECT\<close>, under a configuration that resolves: on every path the
  program makes no call of \<^verbatim>\<open>commit\<close>, so the branch that acknowledges affected rows is
  not taken; when the \<^verbatim>\<open>try\<close> block raises \<open>e\<close>, the result is the one text
  \<open>Error executing query: \<close> followed by \<^verbatim>\<open>str(e)\<close>; when it raises nothing, the result is
  the one text of the table that the driver reports for the statement: the comma-joined
  column names, then one comma-joined line per row; and this is the case whenever no call
  into the driver raises and the driver reports columns and rows.
\<close>

theorem call_tool_select_serialises_without_commit:
  assumes "name = ''execute_sql''" and "arguments ''query'' = Some q"
    and "snd (get_db_config env) = Inr (config, cs)"
    and "startswith (py_upper (py_strip q)) ''SELECT''"
  shows "\<not> list_ex is_commit (snd (call_tool drv env name arguments)) \<and>
         (\<forall>e tr. run_query drv config cs q [] = (Inl e, tr) \<longrightarrow>
            call_tool drv env name arguments =
              (Inr [TextContent ''text'' (''Error executing query: '' @ exn_str e)], tr)) \<and>
         (\<forall>v tr. run_query drv config cs q [] = (Inr v, tr) \<longrightarrow>
            (\<exists>columns rows. drv_description drv (executed cs q) = Some columns \<and>
               drv_fetchall drv (executed cs q) = Inr rows \<and>
               call_tool drv env name arguments =
                 (Inr [TextContent ''text'' (table_text columns rows)], tr))) \<and>
         (\<forall>columns rows. no_raise (snd (call_tool drv env name arguments)) \<and>
              drv_description drv (executed cs q) = Some columns \<and>
              drv_fetchall drv (executed cs q) = Inr rows \<longrightarrow>
            call_tool drv env name arguments =
              (Inr [TextContent ''text'' (table_text columns rows)],
               executed cs q @ [Returned Fetchall, Returned (CursorExit None), Returned (ConnExit None)]))"
proof -
  have q: "q \<noteq> []"
    using assms(4) by (rule select_not_empty)
  have ct: "call_tool drv env name arguments =
     (case run_query drv config cs q [] of
        (Inl e, tr') \<Rightarrow>
          (Inr [TextContent ''text'' (''Error executing query: '' @ exn_str e)], tr')
      | (Inr x, tr') \<Rightarrow> (Inr x, tr'))"
    using assms(1,2) q assms(3) by (rule call_tool_run)
  have tr: "snd (call_tool drv env name arguments) = snd (run_query drv config cs q [])"
    using assms(1,2) q assms(3) by (rule call_tool_trace)
  have 1: "\<not> list_ex is_commit (snd (call_tool drv env name arguments))"
    unfolding tr using assms(4) by (rule select_no_commit)
  have 2: "call_tool drv env name arguments =
              (Inr [TextContent ''text'' (''Error executing query: '' @ exn_str e)], tr)"
    if "run_query drv config cs q [] = (Inl e, tr)" for e tr
    unfolding ct that by simp
  have 3: "\<exists>columns rows. drv_description drv (executed cs q) = Some columns \<and>
               drv_fetchall drv (executed cs q) = Inr rows \<and>
               call_tool drv env name arguments =
                 (Inr [TextContent ''text'' (table_text columns rows)], tr)"
    if r: "run_query drv config cs q [] = (Inr v, tr)" for v tr
  proof -
    from select_Inr [OF assms(4) r] obtain columns rows where
      c: "drv_description drv (executed cs q) = Some columns"
        "drv_fetchall drv (executed cs q) = Inr rows"
        "v = [TextContent ''text'' (table_text columns rows)]"
      by blast
    have "call_tool drv env name arguments =
            (Inr [TextContent ''text'' (table_text columns rows)], tr)"
      unfolding ct r c(3) by simp
    with c(1,2) show ?thesis by blast
  qed
  have 4: "call_tool drv env name arguments =
              (Inr [TextContent ''text'' (table_text columns rows)],
               executed cs q @ [Returned Fetchall, Returned (CursorExit None), Returned (ConnExit None)])"
    if "no_raise (snd (call_tool drv env name arguments))"
      and "drv_description drv (executed cs q) = Some columns"
      and "drv_fetchall drv (executed cs q) = Inr rows" for columns rows
  proof -
    have "no_raise (snd (run_query drv config cs q []))"
      using that(1) by (simp only: tr)
    with assms(4) have "run_query drv config cs q [] =
       (Inr [TextContent ''text'' (table_text columns rows)],
        executed cs q @ [Returned Fetchall, Returned (CursorExit None), Returned (ConnExit None)])"
      using that(2,3) by (rule select_run)
    then show ?thesis unfolding ct by simp
  qed
  from 1 2 3 4 show ?thesis by blast
qed

theorem call_tool_select_serialises_without_commit_witness:
  "\<not> list_ex is_commit
       (snd (call_tool shop_driver shop_env ''execute_sql'' [''query'' \<mapsto> ''select Id, Name from Customers''])) \<and>
   call_tool shop_driver shop_env ''execute_sql'' [''query'' \<mapsto> ''select Id, Name from Customers''] =
     (Inr [TextContent ''text'' (''Id,Name'' @ [nl] @ ''1,Ann'' @ [nl] @ ''2,Bo'')],
      [Returned (Connect shop_cs), Returned Cursor,
       Returned (Execute ''select Id, Name from Customers''),
       Returned Fetchall, Returned (CursorExit None), Returned (ConnExit None)])"
proof -
  have h2: "[''query'' \<mapsto> ''select Id, Name from Customers''] ''query'' = Some ''select Id, Name from Customers''"
    by simp
  have h4: "startswith (py_upper (py_strip ''select Id, Name from Customers'')) ''SELECT''"
    by code_simp
  have h5: "no_raise (snd (call_tool shop_driver shop_env ''execute_sql''
                       [''query'' \<mapsto> ''select Id, Name from Customers'']))"
    by code_simp
  have h6: "drv_description shop_driver (executed shop_cs ''select Id, Name from Customers'')
              = Some [''Id'', ''Name'']"
    by code_simp
  have h7: "drv_fetchall shop_driver (executed shop_cs ''select Id, Name from Customers'')
              = Inr [[CInt 1, CStr ''Ann''], [CInt 2, CStr ''Bo'']]"
    by code_simp
  have t: "table_text [''Id'', ''Name''] [[CInt 1, CStr ''Ann''], [CInt 2, CStr ''Bo'']]
             = ''Id,Name'' @ [nl] @ ''1,Ann'' @ [nl] @ ''2,Bo''"
    by code_simp
  note th = call_tool_select_serialises_without_commit [where name = "''execute_sql''"
      and arguments = "[''query'' \<mapsto> ''select Id, Name from Customers'']"
      and q = "''select Id, Name from Customers''" and env = shop_env and config = shop_config
      and cs = shop_cs and drv = shop_driver, OF refl h2 shop_config_ok h4]
  from th have a: "\<not> list_ex is_commit
       (snd (call_tool shop_driver shop_env ''execute_sql'' [''query'' \<mapsto> ''select Id, Name from Customers'']))"
    by (rule conjunct1)
  from th h5 h6 h7 have "call_tool shop_driver shop_env ''execute_sql'' [''query'' \<mapsto> ''select Id, Name from Customers''] =
     (Inr [TextContent ''text'' (table_text [''Id'', ''Name''] [[CInt 1, CStr ''Ann''], [CInt 2, CStr ''Bo'']])],
      executed shop_cs ''select Id, Name from Customers'' @ [Returned Fetchall, Returned (CursorExit None), Returned (ConnExit None)])"
    by blast
  with a show ?thesis
    by (simp only: t executed_def append_Cons append_Nil simp_thms)
qed

text \<open>
  C2 as stated fails twice. A query that starts with \<open>SELECT\<close> and that the database rejects
  gives the text of the error, not column names and rows. And a query that starts with
  \<open>SELECT\<close> and succeeds leaves both blocks with no exception, which commits the
  transaction, though the program has made no call of \<^verbatim>\<open>commit\<close>.
\<close>

theorem call_tool_select_counterexample:
  "startswith (py_upper (py_strip ''SELECT * FROM Missing'')) ''SELECT'' \<and>
   call_tool shop_driver shop_env ''execute_sql'' [''query'' \<mapsto> ''SELECT * FROM Missing''] =
     (Inr [TextContent ''text'' ''Error executing query: Statement could not be prepared''],
      [Returned (Connect shop_cs), Returned Cursor,
       Raised (Execute ''SELECT * FROM Missing'') (Error ''Statement could not be prepared''),
       Returned (CursorExit (Some (Error ''Statement could not be prepared''))),
       Returned (ConnExit (Some (Error ''Statement could not be prepared'')))]) \<and>
   startswith (py_upper (py_strip ''select Id, Name from Customers'')) ''SELECT'' \<and>
   snd (call_tool shop_driver shop_env ''execute_sql'' [''query'' \<mapsto> ''select Id, Name from Customers'']) =
     [Returned (Connect shop_cs), Returned Cursor,
      Returned (Execute ''select Id, Name from Customers''),
      Returned Fetchall, Returned (CursorExit None), Returned (ConnExit None)] \<and>
   list_ex commits
     (snd (call_tool shop_driver shop_env ''execute_sql'' [''query'' \<mapsto> ''select Id, Name from Customers'']))"
  by code_simp

section \<open>The shorthand for listing tables\<close>

text \<open>
  Behind a driver that accepts the literal text, the branch for \<open>SHOW TABLES\<close> does what its
  comment says: it runs the catalog query and returns the header and the table names.
\<close>

lemma show_tables_shim_when_accepted:
  "call_tool lenient_driver shop_env ''execute_sql'' [''query'' \<mapsto> ''SHOW TABLES''] =
     (Inr [TextContent ''text'' (''Tables_in_shop'' @ [nl] @ ''Customers'' @ [nl] @ ''Notes'')],
      [Returned (Connect shop_cs), Returned Cursor, Returned (Execute ''SHOW TABLES''),
       Returned (Execute catalog_query), Returned Fetchall,
       Returned (CursorExit None), Returned (ConnExit None)])"
  by code_simp

text \<open>
  C5. The claim is that a query which is \<open>SHOW TABLES\<close> returns \<open>Tables_in_\<close> with the
  database name and then the names of the tables that \<^verbatim>\<open>list_resources\<close> enumerates. The
  program executes the literal text first (source line 195) and looks for the shorthand
  only afterwards (line 198, under the comment on special handling for listing tables). A
  server that has no statement \<open>SHOW TABLES\<close> raises at that first call, so the branch is
  never reached: the result is the text of the error, while \<^verbatim>\<open>list_resources\<close> lists the two
  tables of the same database.
\<close>

theorem show_tables_rejected_before_shim:
  "py_upper (py_strip ''SHOW TABLES'') = ''SHOW TABLES'' \<and>
   call_tool shop_driver shop_env ''execute_sql'' [''query'' \<mapsto> ''SHOW TABLES''] =
     (Inr [TextContent ''text'' ''Error executing query: Statement could not be prepared''],
      [Returned (Connect shop_cs), Returned Cursor,
       Raised (Execute ''SHOW TABLES'') (Error ''Statement could not be prepared''),
       Returned (CursorExit (Some (Error ''Statement could not be prepared''))),
       Returned (ConnExit (Some (Error ''Statement could not be prepared'')))]) \<and>
   fst (list_resources shop_driver shop_env) =
     Inr [\<lparr>res_uri = ''mssql://Customers/data'', res_name = ''Table: Customers'',
            res_mimeType = ''text/plain'', res_description = ''Data in table: Customers''\<rparr>,
          \<lparr>res_uri = ''mssql://Notes/data'', res_name = ''Table: Notes'',
            res_mimeType = ''text/plain'', res_description = ''Data in table: Notes''\<rparr>]"
  by code_simp

section \<open>Serialisation of rows\<close>

text \<open>
  C10 (as amended). Where the driver reports columns and rows for the statement and no call
  into the driver raises, \<^verbatim>\<open>read_resource\<close> and the SELECT branch of \<^verbatim>\<open>call_tool\<close> return the
  column names joined by commas, then for each row the \<^verbatim>\<open>str\<close> of its cells joined by commas,
  all joined by line feeds, with no quoting. So a row with a cell whose \<^verbatim>\<open>str\<close> contains a
  comma has more comma-separated fields than cells, and a cell whose \<^verbatim>\<open>str\<close> contains a line
  feed makes the text longer than one line for the header and one for each row.
\<close>

theorem rows_joined_without_escaping:
  assumes "snd (get_db_config env) = Inr (config, cs)"
    and "drv_description drv (executed cs q) = Some columns"
    and "drv_fetchall drv (executed cs q) = Inr rows"
  shows "(startswith uri_str ''mssql://'' \<and> py_split CHR ''/'' (drop 8 uri_str) = table # rest \<and>
          q = ''SELECT TOP 100 * FROM '' @ table \<and> no_raise (snd (read_resource drv env uri_str)) \<longrightarrow>
            fst (read_resource drv env uri_str) =
              Inr (py_join [nl] (py_join '','' columns
                     # map (\<lambda>row. py_join '','' (map py_str row)) rows))) \<and>
         (name = ''execute_sql'' \<and> arguments ''query'' = Some q \<and>
          startswith (py_upper (py_strip q)) ''SELECT'' \<and>
          no_raise (snd (call_tool drv env name arguments)) \<longrightarrow>
            fst (call_tool drv env name arguments) =
              Inr [TextContent ''text''
                     (py_join [nl] (py_join '','' columns
                        # map (\<lambda>row. py_join '','' (map py_str row)) rows))]) \<and>
         (\<forall>row\<in>set rows. \<forall>c\<in>set row. CHR '','' \<in> set (py_str c) \<longrightarrow>
            length row < length (fields (py_join '','' (map py_str row)))) \<and>
         (\<forall>row\<in>set rows. \<forall>c\<in>set row. nl \<in> set (py_str c) \<longrightarrow>
            1 + length rows < length (lines (py_join [nl] (py_join '','' columns
                     # map (\<lambda>row. py_join '','' (map py_str row)) rows))))"
proof -
  have ser: "py_join [nl] (py_join '','' columns # map (\<lambda>row. py_join '','' (map py_str row)) rows)
               = table_text columns rows"
    by (simp add: table_text_def row_line_def [abs_def])
  have 1: "fst (read_resource drv env uri_str) = Inr (table_text columns rows)"
    if "startswith uri_str ''mssql://''" and "py_split CHR ''/'' (drop 8 uri_str) = table # rest"
      and "q = ''SELECT TOP 100 * FROM '' @ table" and "no_raise (snd (read_resource drv env uri_str))"
  proof -
    have "no_raise (snd (read_table drv cs table []))"
      using that(4) read_resource_trace [OF assms(1) that(1,2)] by simp
    then have "read_table drv cs table [] =
       (Inr (table_text columns rows),
        executed cs (''SELECT TOP 100 * FROM '' @ table)
          @ [Returned Fetchall, Returned (CursorExit None), Returned (ConnExit None)])"
      using assms(2,3) unfolding that(3) by (rule read_table_run)
    then show ?thesis
      by (simp add: read_resource_run [OF assms(1) that(1,2)])
  qed
  have 2: "fst (call_tool drv env name arguments) = Inr [TextContent ''text'' (table_text columns rows)]"
    if "name = ''execute_sql''" and "arguments ''query'' = Some q"
      and "startswith (py_upper (py_strip q)) ''SELECT''"
      and "no_raise (snd (call_tool drv env name arguments))"
  proof -
    have q: "q \<noteq> []"
      using that(3) by (rule select_not_empty)
    have "snd (call_tool drv env name arguments) = snd (run_query drv config cs q [])"
      using that(1,2) q assms(1) by (rule call_tool_trace)
    with that(4) have "no_raise (snd (run_query drv config cs q []))"
      by simp
    with that(3) have "run_query drv config cs q [] =
       (Inr [TextContent ''text'' (table_text columns rows)],
        executed cs q @ [Returned Fetchall, Returned (CursorExit None), Returned (ConnExit None)])"
      using assms(2,3) by (rule select_run)
    moreover have "call_tool drv env name arguments =
       (case run_query drv config cs q [] of
          (Inl e, tr') \<Rightarrow>
            (Inr [TextContent ''text'' (''Error executing query: '' @ exn_str e)], tr')
        | (Inr x, tr') \<Rightarrow> (Inr x, tr'))"
      using that(1,2) q assms(1) by (rule call_tool_run)
    ultimately show ?thesis
      by simp
  qed
  have 3: "length row < length (fields (py_join '','' (map py_str row)))"
    if "row \<in> set rows" and "c \<in> set row" and "CHR '','' \<in> set (py_str c)" for row c
    using fields_row_line_comma [OF that(2,3)] by (simp add: row_line_def)
  have 4: "1 + length rows < length (lines (table_text columns rows))"
    if "row \<in> set rows" and "c \<in> set row" and "nl \<in> set (py_str c)" for row c
    using that by (rule lines_table_text_newline)
  show ?thesis
    unfolding ser using 1 2 3 4 by blast
qed

theorem rows_joined_without_escaping_witness:
  "fst (call_tool shop_driver shop_env ''execute_sql'' [''query'' \<mapsto> ''select Name, Town from Customers'']) =
     Inr [TextContent ''text'' (''Name,Town'' @ [nl] @ ''Ann,Bath'' @ [nl] @ ''Bo,Ayr, Scotland'')] \<and>
   length [CStr ''Bo'', CStr ''Ayr, Scotland''] < length (fields ''Bo,Ayr, Scotland'') \<and>
   fst (read_resource shop_driver shop_env ''mssql://Notes/data'') =
     Inr (py_join [nl] (''Body'' # replicate 100 note_body)) \<and>
   1 + 100 < length (lines (py_join [nl] (''Body'' # replicate 100 note_body)))"
proof -
  let ?q = "''select Name, Town from Customers''"
  let ?rows = "[[CStr ''Ann'', CStr ''Bath''], [CStr ''Bo'', CStr ''Ayr, Scotland'']]"
  have d: "drv_description shop_driver (executed shop_cs ?q) = Some [''Name'', ''Town'']"
    by code_simp
  have f: "drv_fetchall shop_driver (executed shop_cs ?q) = Inr ?rows"
    by code_simp
  have a2: "[''query'' \<mapsto> ?q] ''query'' = Some ?q"
    by simp
  have a3: "startswith (py_upper (py_strip ?q)) ''SELECT''"
    by code_simp
  have a4: "no_raise (snd (call_tool shop_driver shop_env ''execute_sql'' [''query'' \<mapsto> ?q]))"
    by code_simp
  have s1: "py_join [nl] (py_join '','' [''Name'', ''Town'']
                # map (\<lambda>row. py_join '','' (map py_str row)) ?rows)
            = ''Name,Town'' @ [nl] @ ''Ann,Bath'' @ [nl] @ ''Bo,Ayr, Scotland''"
    by code_simp
  have s2: "py_join '','' (map py_str [CStr ''Bo'', CStr ''Ayr, Scotland'']) = ''Bo,Ayr, Scotland''"
    by code_simp
  have c: "CHR '','' \<in> set (py_str (CStr ''Ayr, Scotland''))"
    by simp
  note th1 = rows_joined_without_escaping [where env = shop_env and config = shop_config and cs = shop_cs
      and drv = shop_driver and q = ?q and columns = "[''Name'', ''Town'']" and rows = ?rows
      and name = "''execute_sql''" and arguments = "[''query'' \<mapsto> ?q]",
      OF shop_config_ok d f]
  from th1 a2 a3 a4 have r1:
    "fst (call_tool shop_driver shop_env ''execute_sql'' [''query'' \<mapsto> ?q]) =
       Inr [TextContent ''text'' (''Name,Town'' @ [nl] @ ''Ann,Bath'' @ [nl] @ ''Bo,Ayr, Scotland'')]"
    unfolding s1 by blast
  from th1 c have r2: "length [CStr ''Bo'', CStr ''Ayr, Scotland''] < length (fields ''Bo,Ayr, Scotland'')"
    unfolding s2 [symmetric] by (auto simp del: py_str.simps py_join.simps)
  let ?n = "''SELECT TOP 100 * FROM '' @ ''Notes''"
  have d': "drv_description shop_driver (executed shop_cs ?n) = Some [''Body'']"
    by code_simp
  have f': "drv_fetchall shop_driver (executed shop_cs ?n) = Inr (replicate 100 [CStr note_body])"
    by code_simp
  have b1: "startswith ''mssql://Notes/data'' ''mssql://''"
    by (simp add: startswith_def)
  have b2: "py_split CHR ''/'' (drop 8 ''mssql://Notes/data'') = ''Notes'' # [''data'']"
    by simp
  have b4: "no_raise (snd (read_resource shop_driver shop_env ''mssql://Notes/data''))"
    by code_simp
  have s3: "py_join [nl] (py_join '','' [''Body'']
                # map (\<lambda>row. py_join '','' (map py_str row)) (replicate 100 [CStr note_body]))
            = py_join [nl] (''Body'' # replicate 100 note_body)"
    by simp
  have n: "nl \<in> set (py_str (CStr note_body))"
    by (simp add: note_body_def)
  note th2 = rows_joined_without_escaping [where env = shop_env and config = shop_config and cs = shop_cs
      and drv = shop_driver and q = ?n and columns = "[''Body'']"
      and rows = "replicate 100 [CStr note_body]" and uri_str = "''mssql://Notes/data''"
      and table = "''Notes''" and rest = "[''data'']",
      OF shop_config_ok d' f']
  from th2 b1 b2 b4 have r3: "fst (read_resource shop_driver shop_env ''mssql://Notes/data'') =
     Inr (py_join [nl] (''Body'' # replicate 100 note_body))"
    unfolding s3 by blast
  from th2 n have r4: "1 + 100 < length (lines (py_join [nl] (''Body'' # replicate 100 note_body)))"
    unfolding s3 by (auto simp del: py_str.simps py_join.simps)
  from r1 r2 r3 r4 show ?thesis by blast
qed

text \<open>
  C10 as stated fails for the line feed: in the table \<open>Notes\<close>, of one column, each cell
  contains a line feed and no comma; the serialised row has one comma-separated field, as
  many as the header has columns, and so has every line of the text.
\<close>

theorem newline_cell_field_count_counterexample:
  "nl \<in> set (py_str (CStr note_body)) \<and>
   fst (read_resource shop_driver shop_env ''mssql://Notes/data'')
     = Inr (table_text [''Body''] (replicate 100 [CStr note_body])) \<and>
   length (fields (row_line [CStr note_body])) = length [''Body''] \<and>
   list_all (\<lambda>l. length (fields l) = length [''Body''])
     (lines (table_text [''Body''] (replicate 100 [CStr note_body])))"
  by code_simp

section \<open>What configuration resolution logs and cleans\<close>

text \<open>
  What does hold: a value that \<^verbatim>\<open>clean_env_var\<close> reads loses its pair of enclosing quotes,
  the returned dictionary holds the placeholder for the password, and the only exception is
  the fixed text about the missing configuration.
\<close>

lemma clean_env_var_strips:
  assumes "env n = Some (c # v @ [c])" and "c = sq \<or> c = dq"
  shows "clean_env_var env n d = Some v"
  using assms by (auto simp: clean_env_var_def getenv_def startswith_def endswith_def butlast_append)

lemma config_password_redacted:
  assumes "snd (get_db_config env) = Inr (config, cs)"
  shows "cfg_password config = ''********''"
  using assms by (auto simp: get_db_config_def Let_def split: if_splits)

lemma config_error_text:
  assumes "snd (get_db_config env) = Inl e"
  shows "e = ValueError ''Missing required database configuration''"
  using assms by (auto simp: get_db_config_def Let_def split: if_splits)

text \<open>
  C8. The claim is that the password never appears in the log of \<^verbatim>\<open>get_db_config\<close>. For the
  password \<open>!@#$%^\<close> the log holds the message that begins with its first two characters,
  ends with its last two and lists its characters that are neither letters nor digits:
  all six, so the whole password is in the log.
\<close>

theorem password_characters_logged:
  "getenv leak_env ''MSSQL_PASSWORD'' None = Some ''!@#$%^'' \<and>
   (INFO, ''Debug - Password format: begins with '' @ [sq] @ ''!@'' @ [sq] @ '', ends with '' @ [sq]
          @ ''%^'' @ [sq] @ '', contains special chars: '' @ [sq] @ ''!@#$%^'' @ [sq])
     \<in> set (fst (get_db_config leak_env)) \<and>
   list_ex (\<lambda>entry. py_in ''!@#$%^'' (snd entry)) (fst (get_db_config leak_env))"
  by code_simp

text \<open>
  C9. The claim is that every value read from the environment loses one layer of enclosing
  quotes. With \<^verbatim>\<open>MSSQL_DATABASE\<close> and \<^verbatim>\<open>Encrypt\<close> both set in double quotes, the
  connection string names the database without the quotes and the encryption flag with
  them: the four options read at source lines 67 to 70 do not pass through
  \<^verbatim>\<open>clean_env_var\<close>.
\<close>

theorem connection_options_keep_quotes:
  "getenv quoted_env ''MSSQL_DATABASE'' None = Some (dq # ''shop'' @ [dq]) \<and>
   getenv quoted_env ''Encrypt'' None = Some (dq # ''no'' @ [dq]) \<and>
   snd (get_db_config quoted_env) =
     Inr (shop_config,
          ''Driver={ODBC Driver 18 for SQL Server};Server=localhost,1433;Database=shop;UID=sa;PWD=secret1;TrustServerCertificate=yes;Encrypt=''
          @ [dq] @ ''no'' @ [dq] @ '';Connection Timeout=60;Login Timeout=60;MARS_Connection=yes'')"
  by code_simp

end
